theory Spec2Isabelle
  imports Main "HOL-Library.Sublist"
begin

section \<open>Values of a request\<close>

text \<open>
  The handlers of \<^verbatim>\<open>server.js\<close> read three fields of the parsed JSON body
  (\<^verbatim>\<open>title\<close>, \<^verbatim>\<open>priority\<close>, \<^verbatim>\<open>completed\<close>) and test or forward them without
  looking at their type. A field is therefore any JavaScript value that \<^verbatim>\<open>JSON.parse\<close>
  can produce, or \<^verbatim>\<open>undefined\<close> when the field is absent. Numbers are the integral
  ones that \<^verbatim>\<open>toString\<close> writes in plain decimal digits (below \<open>10\<^sup>2\<^sup>1\<close> in size);
  \<open>JObj t\<close> stands for an array or an object, carried with the text \<open>t\<close> that the
  database driver sends for it. The body itself is the object the JSON body parser leaves
  in \<^verbatim>\<open>req.body\<close> (the empty object when the request carries none), a map from field
  names to values. A text is the list of the bytes of its UTF-8 encoding, which is what
  the driver sends to the database; one character is one to four bytes.
\<close>

datatype jsval = JUndefined | JNull | JBool bool | JNum int | JStr string | JObj string

type_synonym body = "string \<rightharpoonup> jsval"

text \<open>Destructuring \<^verbatim>\<open>const { title } = req.body\<close>: an absent field is \<^verbatim>\<open>undefined\<close>.\<close>

definition field :: "body \<Rightarrow> string \<Rightarrow> jsval" where
  "field b k = (case b k of None \<Rightarrow> JUndefined | Some v \<Rightarrow> v)"

text \<open>JavaScript's truthiness, as tested by \<^verbatim>\<open>!title\<close> and \<^verbatim>\<open>priority || 'medium'\<close>.\<close>

fun truthy :: "jsval \<Rightarrow> bool" where
  "truthy JUndefined = False"
| "truthy JNull = False"
| "truthy (JBool b) = b"
| "truthy (JNum n) = (n \<noteq> 0)"
| "truthy (JStr s) = (s \<noteq> [])"
| "truthy (JObj t) = True"

definition js_or :: "jsval \<Rightarrow> jsval \<Rightarrow> jsval" where
  "js_or a b = (if truthy a then a else b)"

section \<open>Decimal text\<close>

definition is_space :: "char \<Rightarrow> bool" where
  "is_space c = (c \<in> set [CHR '' '', CHR 0x09, CHR 0x0A, CHR 0x0B, CHR 0x0C, CHR 0x0D])"

definition is_digit :: "char \<Rightarrow> bool" where
  "is_digit c = (48 \<le> (of_char c :: nat) \<and> (of_char c :: nat) \<le> 57)"

definition trim :: "string \<Rightarrow> string" where
  "trim s = rev (dropWhile is_space (rev (dropWhile is_space s)))"

definition lower :: "char \<Rightarrow> char" where
  "lower c = (if 65 \<le> (of_char c :: nat) \<and> (of_char c :: nat) \<le> 90
              then char_of ((of_char c :: nat) + 32) else c)"

text \<open>The decimal digits of a natural number, most significant first.\<close>

fun digits :: "nat \<Rightarrow> string" where
  "digits n = (if n < 10 then [char_of (48 + n)]
               else digits (n div 10) @ [char_of (48 + n mod 10)])"

declare digits.simps [simp del]

text \<open>\<^verbatim>\<open>Number.prototype.toString\<close> on an integral number; also the text in which the
  database returns a \<^verbatim>\<open>COUNT(*)\<close>.\<close>

definition show_int :: "int \<Rightarrow> string" where
  "show_int i = (if i < 0 then CHR ''-'' # digits (nat (- i)) else digits (nat i))"

fun digits_value :: "nat \<Rightarrow> string \<Rightarrow> nat" where
  "digits_value acc [] = acc"
| "digits_value acc (c # cs) = digits_value (10 * acc + ((of_char c :: nat) - 48)) cs"

text \<open>Splitting an optional sign off the front of a numeral.\<close>

definition split_sign :: "string \<Rightarrow> bool \<times> string" where
  "split_sign t = (case t of
       [] \<Rightarrow> (False, [])
     | c # r \<Rightarrow> if c = CHR ''-'' then (True, r) else if c = CHR ''+'' then (False, r) else (False, t))"

text \<open>
  \<^verbatim>\<open>parseInt(text)\<close> without a radix: leading white space and a sign are skipped, a
  \<^verbatim>\<open>0x\<close> prefix selects base sixteen, and the longest run of digits is read; \<open>None\<close> is
  \<^verbatim>\<open>NaN\<close>.
\<close>

definition hex_value :: "char \<Rightarrow> nat option" where
  "hex_value c = (let n = (of_char c :: nat) in
     if 48 \<le> n \<and> n \<le> 57 then Some (n - 48)
     else if 97 \<le> n \<and> n \<le> 102 then Some (n - 87)
     else if 65 \<le> n \<and> n \<le> 70 then Some (n - 55)
     else None)"

fun hex_digits_value :: "nat \<Rightarrow> string \<Rightarrow> nat" where
  "hex_digits_value acc [] = acc"
| "hex_digits_value acc (c # cs) =
     hex_digits_value (16 * acc + (case hex_value c of Some v \<Rightarrow> v | None \<Rightarrow> 0)) cs"

definition parseInt :: "string \<Rightarrow> int option" where
  "parseInt s =
     (let (neg, u) = split_sign (dropWhile is_space s);
          signed = (\<lambda>n. if neg then - int n else int n)
      in if take 2 u = ''0x'' \<or> take 2 u = ''0X''
         then (let ds = takeWhile (\<lambda>c. hex_value c \<noteq> None) (drop 2 u)
               in if ds = [] then None else Some (signed (hex_digits_value 0 ds)))
         else (let ds = takeWhile is_digit u
               in if ds = [] then None else Some (signed (digits_value 0 ds))))"

section \<open>The storage: table \<^verbatim>\<open>tasks\<close> and its SQL statements\<close>

text \<open>
  The table is created by the migration script:
  \<^verbatim>\<open>id SERIAL PRIMARY KEY, title VARCHAR(255) NOT NULL, priority VARCHAR(50) DEFAULT
  'medium', completed BOOLEAN DEFAULT false, created_at, updated_at TIMESTAMP DEFAULT
  CURRENT_TIMESTAMP\<close>. Columns without \<^verbatim>\<open>NOT NULL\<close> may hold \<^verbatim>\<open>NULL\<close>, which is \<open>None\<close>.
  Time stamps are readings of the database clock.
\<close>

record task =
  task_id :: int
  title :: string
  priority :: "string option"
  completed :: "bool option"
  created_at :: nat
  updated_at :: nat

record db =
  rows :: "task list"
  next_id :: int

text \<open>
  The driver's conversion of a query parameter (\<^verbatim>\<open>prepareValue\<close> of \<^verbatim>\<open>pg\<close>):
  \<^verbatim>\<open>undefined\<close> and \<^verbatim>\<open>null\<close> become \<^verbatim>\<open>NULL\<close>, everything else is sent as text.
\<close>

fun prepareValue :: "jsval \<Rightarrow> string option" where
  "prepareValue JUndefined = None"
| "prepareValue JNull = None"
| "prepareValue (JBool b) = Some (if b then ''true'' else ''false'')"
| "prepareValue (JNum n) = Some (show_int n)"
| "prepareValue (JStr s) = Some s"
| "prepareValue (JObj t) = Some t"

text \<open>
  The database reads a text parameter in the type of the column it is compared with or
  assigned to. An integer is an optionally signed decimal numeral within 32 bits, white
  space around it ignored.
\<close>

definition int4_in :: "string \<Rightarrow> int option" where
  "int4_in s =
     (let (neg, ds) = split_sign (trim s)
      in if ds = [] \<or> \<not> list_all is_digit ds then None
         else (let v = (if neg then - int (digits_value 0 ds) else int (digits_value 0 ds))
               in if - 2147483648 \<le> v \<and> v \<le> 2147483647 then Some v else None))"

text \<open>
  A boolean is a non-empty prefix of \<^verbatim>\<open>true\<close>, \<^verbatim>\<open>false\<close>, \<^verbatim>\<open>yes\<close> or \<^verbatim>\<open>no\<close>, or one
  of \<^verbatim>\<open>on\<close>, \<^verbatim>\<open>off\<close>, \<^verbatim>\<open>of\<close>, \<^verbatim>\<open>1\<close>, \<^verbatim>\<open>0\<close>, in any letter case.
\<close>

definition bool_in :: "string \<Rightarrow> bool option" where
  "bool_in s =
     (let t = map lower (trim s)
      in if t = [] then None
         else if prefix t ''true'' \<or> prefix t ''yes'' \<or> t = ''on'' \<or> t = ''1'' then Some True
         else if prefix t ''false'' \<or> prefix t ''no'' \<or> t = ''of'' \<or> t = ''off'' \<or> t = ''0''
              then Some False
         else None)"

text \<open>
  The database (encoding UTF8) accepts a text only if it is well-formed UTF-8 without a
  zero character: no overlong form, no surrogate, nothing above U+10FFFF. \<open>utf8_from k lo
  hi\<close> reads a text of which \<open>k\<close> continuation bytes are still due, the next of them
  within \<open>lo\<close> and \<open>hi\<close>.
\<close>

definition is_continuation :: "char \<Rightarrow> bool" where
  "is_continuation c = (128 \<le> (of_char c :: nat) \<and> (of_char c :: nat) \<le> 191)"

fun utf8_from :: "nat \<Rightarrow> nat \<Rightarrow> nat \<Rightarrow> string \<Rightarrow> bool" where
  "utf8_from k lo hi [] = (k = 0)"
| "utf8_from k lo hi (c # cs) =
     (let x = (of_char c :: nat)
      in if k = 0 then
           (if x < 128 then x \<noteq> 0 \<and> utf8_from 0 128 191 cs
            else if 194 \<le> x \<and> x \<le> 223 then utf8_from 1 128 191 cs
            else if x = 224 then utf8_from 2 160 191 cs
            else if x = 237 then utf8_from 2 128 159 cs
            else if 225 \<le> x \<and> x \<le> 239 then utf8_from 2 128 191 cs
            else if x = 240 then utf8_from 3 144 191 cs
            else if 241 \<le> x \<and> x \<le> 243 then utf8_from 3 128 191 cs
            else if x = 244 then utf8_from 3 128 143 cs
            else False)
         else lo \<le> x \<and> x \<le> hi \<and> utf8_from (k - 1) 128 191 cs)"

definition utf8_valid :: "string \<Rightarrow> bool" where
  "utf8_valid s = utf8_from 0 128 191 s"

text \<open>The number of characters of a text, and what is left of it after its first \<open>n\<close>
  characters.\<close>

definition utf8_length :: "string \<Rightarrow> nat" where
  "utf8_length s = length (filter (\<lambda>c. \<not> is_continuation c) s)"

fun utf8_drop :: "nat \<Rightarrow> string \<Rightarrow> string" where
  "utf8_drop n [] = []"
| "utf8_drop n (c # cs) =
     (if is_continuation c then utf8_drop n cs
      else (case n of 0 \<Rightarrow> c # cs | Suc m \<Rightarrow> utf8_drop m cs))"

text \<open>
  A \<^verbatim>\<open>VARCHAR(n)\<close> column takes a well-formed text of at most \<open>n\<close> characters; a
  longer one only when the excess is all spaces, which are cut off.
\<close>

definition varchar_in :: "nat \<Rightarrow> string \<Rightarrow> string option" where
  "varchar_in n s =
     (if \<not> utf8_valid s then None
      else if utf8_length s \<le> n then Some s
      else if list_all (\<lambda>c. c = CHR '' '') (utf8_drop n s)
           then Some (take (length s - length (utf8_drop n s)) s)
      else None)"

text \<open>
  Each statement either fails with the message of the error the database raises, or
  yields its result and the new table. \<open>clock\<close> is \<^verbatim>\<open>CURRENT_TIMESTAMP\<close>. A statement
  that fails leaves the table and the sequence of the model as they were (the database
  may have drawn a number from the sequence before it raised).
\<close>

type_synonym 'a statement = "db \<Rightarrow> string + ('a \<times> db)"

text \<open>\<^verbatim>\<open>SELECT 1\<close>\<close>

definition select_one :: "unit statement" where
  "select_one d = Inr ((), d)"

text \<open>\<^verbatim>\<open>SELECT * FROM tasks ORDER BY created_at DESC\<close>; among rows of equal time stamp,
  whose order SQL leaves open, the later row of the table comes first.\<close>

definition select_tasks :: "task list statement" where
  "select_tasks d = Inr (rev (sort_key created_at (rows d)), d)"

text \<open>
  \<^verbatim>\<open>INSERT INTO tasks (title, priority) VALUES ($1, $2) RETURNING *\<close>. The id is drawn
  from the sequence of the \<^verbatim>\<open>SERIAL\<close> column, which runs from 1 to \<open>2\<^sup>3\<^sup>1 - 1\<close> and
  raises once it is used up; \<^verbatim>\<open>PRIMARY KEY\<close> refuses an id that a stored row already has.
\<close>

definition nextval :: "db \<Rightarrow> int option" where
  "nextval d = (if 1 \<le> next_id d \<and> next_id d \<le> 2147483647 then Some (next_id d) else None)"

definition insert_task :: "nat \<Rightarrow> string option \<Rightarrow> string option \<Rightarrow> task list statement" where
  "insert_task clock p1 p2 d =
     (case (case p1 of None \<Rightarrow> Some None | Some t \<Rightarrow> map_option Some (varchar_in 255 t)) of
        None \<Rightarrow> Inl ''value not accepted for type character varying(255)''
      | Some t' \<Rightarrow>
         (case (case p2 of None \<Rightarrow> Some None | Some p \<Rightarrow> map_option Some (varchar_in 50 p)) of
            None \<Rightarrow> Inl ''value not accepted for type character varying(50)''
          | Some p' \<Rightarrow>
             (case nextval d of
                None \<Rightarrow> Inl ''nextval: reached maximum value of sequence''
              | Some i \<Rightarrow>
                 (case t' of
                    None \<Rightarrow> Inl ''null value in column title violates not-null constraint''
                  | Some t \<Rightarrow>
                     if i \<in> set (map task_id (rows d))
                     then Inl ''duplicate key value violates unique constraint''
                     else (let r = \<lparr>task_id = i, title = t, priority = p',
                                     completed = Some False, created_at = clock,
                                     updated_at = clock\<rparr>
                           in Inr ([r], d\<lparr>rows := rows d @ [r], next_id := i + 1\<rparr>))))))"

text \<open>\<^verbatim>\<open>UPDATE tasks SET completed = $1, updated_at = CURRENT_TIMESTAMP WHERE id = $2
  RETURNING *\<close>\<close>

definition update_task :: "nat \<Rightarrow> string option \<Rightarrow> string option \<Rightarrow> task list statement" where
  "update_task clock p1 p2 d =
     (case (case p1 of None \<Rightarrow> Some None | Some t \<Rightarrow> map_option Some (bool_in t)) of
        None \<Rightarrow> Inl ''invalid input syntax for type boolean''
      | Some c \<Rightarrow>
         (case p2 of
            None \<Rightarrow> Inr ([], d)
          | Some t \<Rightarrow>
             (case int4_in t of
                None \<Rightarrow> Inl ''invalid input syntax for type integer''
              | Some i \<Rightarrow>
                 (let upd = (\<lambda>r. if task_id r = i
                                   then r\<lparr>completed := c, updated_at := clock\<rparr> else r)
                  in Inr (map upd (filter (\<lambda>r. task_id r = i) (rows d)),
                          d\<lparr>rows := map upd (rows d)\<rparr>)))))"

text \<open>\<^verbatim>\<open>DELETE FROM tasks WHERE id = $1 RETURNING *\<close>\<close>

definition delete_task :: "string option \<Rightarrow> task list statement" where
  "delete_task p1 d =
     (case p1 of
        None \<Rightarrow> Inr ([], d)
      | Some t \<Rightarrow>
         (case int4_in t of
            None \<Rightarrow> Inl ''invalid input syntax for type integer''
          | Some i \<Rightarrow>
             Inr (filter (\<lambda>r. task_id r = i) (rows d),
                  d\<lparr>rows := filter (\<lambda>r. task_id r \<noteq> i) (rows d)\<rparr>)))"

text \<open>\<^verbatim>\<open>SELECT COUNT(*) FROM tasks\<close>: one row whose \<^verbatim>\<open>count\<close> is a decimal text.\<close>

definition count_total :: "string statement" where
  "count_total d = Inr (show_int (int (length (rows d))), d)"

text \<open>\<^verbatim>\<open>SELECT COUNT(*) FROM tasks WHERE completed = true\<close>\<close>

definition count_completed :: "string statement" where
  "count_completed d =
     Inr (show_int (int (length (filter (\<lambda>r. completed r = Some True) (rows d)))), d)"

section \<open>The service state\<close>

text \<open>
  The process owns the metrics registry (two histograms, one counter, two gauges), the
  console, and the background work it has started; the table lives in the database. A
  histogram is the list of its observations, each with its labels and the measured
  milliseconds (the code observes milliseconds divided by 1000); the counter maps a label
  triple to its count. \<open>issued\<close> lists the storage calls made through \<^verbatim>\<open>pool.query\<close>.
  A gauge holds a number, \<open>None\<close> being \<^verbatim>\<open>NaN\<close>. \<open>detached\<close> counts the calls of
  \<^verbatim>\<open>updateTaskMetrics\<close> that were started without being awaited and have not resumed
  yet, \<open>intervals\<close> holds the periods of the timers registered for it, and \<open>uncaught\<close>
  the exceptions that escaped to the event loop; the module installs no handler for them,
  so the first one ends the process.
\<close>

datatype stmt = SelectOne | SelectTasks | InsertInto | UpdateSet | DeleteFrom
  | CountTotal | CountCompleted

type_synonym labels = "string \<times> string \<times> nat"

record state =
  store :: db
  issued :: "stmt list"
  httpRequestDuration :: "(labels \<times> int) list"
  httpRequestTotal :: "labels \<Rightarrow> nat"
  dbQueryDuration :: "(string \<times> int) list"
  tasksTotal :: "int option"
  tasksCompleted :: "int option"
  console :: "(string \<times> string) list"
  detached :: nat
  intervals :: "nat list"
  uncaught :: "string list"

text \<open>
  What one activation of the code (a request, a timer tick, a resumed background call)
  meets in its surroundings: \<open>fault k = Some m\<close> when its \<open>k\<close>-th storage call is rejected
  with an error of message \<open>m\<close> (the database cannot be reached), the database clock,
  the process clock read by \<^verbatim>\<open>new Date()\<close>, and the differences of \<^verbatim>\<open>Date.now()\<close> that the
  handler and the middleware measure. \<open>throws k = Some m\<close> when the \<open>k\<close>-th call that the
  \<^verbatim>\<open>finish\<close> listener of the metrics middleware makes to the registry throws an error of
  message \<open>m\<close>; the registry calls inside the handlers' \<^verbatim>\<open>try\<close> blocks are taken to
  return.
\<close>

record env =
  fault :: "nat \<Rightarrow> string option"
  db_clock :: nat
  date :: nat
  query_ms :: int
  request_ms :: int
  throws :: "nat \<Rightarrow> string option"

text \<open>\<^verbatim>\<open>await pool.query(...)\<close>: the call is made; it is rejected when the database
  cannot be reached or the statement raises, and otherwise yields the statement's result.\<close>

definition pool_query :: "env \<Rightarrow> nat \<Rightarrow> stmt \<Rightarrow> 'a statement \<Rightarrow> state \<Rightarrow> (string + 'a) \<times> state" where
  "pool_query e k q run s =
     (let s1 = s\<lparr>issued := issued s @ [q]\<rparr>
      in case fault e k of
           Some m \<Rightarrow> (Inl m, s1)
         | None \<Rightarrow> (case run (store s1) of
                       Inl m \<Rightarrow> (Inl m, s1)
                     | Inr (r, d) \<Rightarrow> (Inr r, s1\<lparr>store := d\<rparr>)))"

text \<open>\<^verbatim>\<open>dbQueryDuration.labels(kind).observe((Date.now() - start) / 1000)\<close>\<close>

definition observe_db :: "string \<Rightarrow> env \<Rightarrow> state \<Rightarrow> state" where
  "observe_db kind e s = s\<lparr>dbQueryDuration := dbQueryDuration s @ [(kind, query_ms e)]\<rparr>"

text \<open>\<^verbatim>\<open>console.error(text, error)\<close>\<close>

definition console_error :: "string \<Rightarrow> string \<Rightarrow> state \<Rightarrow> state" where
  "console_error text m s = s\<lparr>console := console s @ [(text, m)]\<rparr>"

text \<open>The second half of \<^verbatim>\<open>await pool.query(...)\<close>: a call made earlier is settled.\<close>

definition settle :: "env \<Rightarrow> nat \<Rightarrow> 'a statement \<Rightarrow> state \<Rightarrow> (string + 'a) \<times> state" where
  "settle e k run s =
     (case fault e k of
        Some m \<Rightarrow> (Inl m, s)
      | None \<Rightarrow> (case run (store s) of
                    Inl m \<Rightarrow> (Inl m, s)
                  | Inr (r, d) \<Rightarrow> (Inr r, s\<lparr>store := d\<rparr>)))"

text \<open>
  The call \<^verbatim>\<open>updateTaskMetrics()\<close> inside a handler is not awaited. The function runs up
  to its first \<^verbatim>\<open>await\<close>, that is, it makes its first storage call,
  \<^verbatim>\<open>pool.query('SELECT COUNT(*) FROM tasks')\<close>; then the handler goes on to answer, and the
  rest of the refresh runs later as an activation of its own.
\<close>

definition detach :: "state \<Rightarrow> state" where
  "detach s = s\<lparr>issued := issued s @ [CountTotal], detached := detached s + 1\<rparr>"

section \<open>Responses\<close>

datatype payload =
    ErrorBody string
  | MessageBody string
  | Live string string
  | Ready string string "string option" nat
  | TaskBody task
  | TaskList "task list"
  | StatsBody "int option" "int option" "int option"
  | Exposition
  | Html
  | Empty

record response =
  status :: nat
  payload :: payload

definition json :: "nat \<Rightarrow> payload \<Rightarrow> response" where
  "json c p = \<lparr>status = c, payload = p\<rparr>"

text \<open>\<^verbatim>\<open>result.rows[0]\<close>, which is \<^verbatim>\<open>undefined\<close> (an empty body) when there is no row.\<close>

definition first_row :: "task list \<Rightarrow> payload" where
  "first_row rs = (case rs of [] \<Rightarrow> Empty | r # _ \<Rightarrow> TaskBody r)"

section \<open>The handlers of \<^verbatim>\<open>server.js\<close>\<close>

text \<open>\<^verbatim>\<open>GET /health\<close>\<close>

definition get_health :: "env \<Rightarrow> state \<Rightarrow> response \<times> state" where
  "get_health e s =
     (case pool_query e 0 SelectOne select_one s of
        (Inr u, s1) \<Rightarrow> (json 200 (Ready ''healthy'' ''connected'' None (date e)), s1)
      | (Inl m, s1) \<Rightarrow> (json 503 (Ready ''unhealthy'' ''disconnected'' (Some m) (date e)), s1))"

text \<open>\<^verbatim>\<open>GET /api/health\<close>\<close>

definition get_api_health :: "env \<Rightarrow> state \<Rightarrow> response \<times> state" where
  "get_api_health e s = (json 200 (Live ''OK'' ''Server is running''), s)"

text \<open>\<^verbatim>\<open>GET /api/tasks\<close>\<close>

definition get_tasks :: "env \<Rightarrow> state \<Rightarrow> response \<times> state" where
  "get_tasks e s =
     (case pool_query e 0 SelectTasks select_tasks s of
        (Inr rs, s1) \<Rightarrow> (json 200 (TaskList rs), observe_db ''select'' e s1)
      | (Inl m, s1) \<Rightarrow>
          (json 500 (ErrorBody ''Internal server error''),
           console_error ''Error fetching tasks:'' m s1))"

text \<open>\<^verbatim>\<open>POST /api/tasks\<close>\<close>

definition post_tasks :: "env \<Rightarrow> body \<Rightarrow> state \<Rightarrow> response \<times> state" where
  "post_tasks e b s =
     (let title = field b ''title''; priority = field b ''priority''
      in if \<not> truthy title then (json 400 (ErrorBody ''Title is required''), s)
         else (case pool_query e 0 InsertInto
                      (insert_task (db_clock e) (prepareValue title)
                         (prepareValue (js_or priority (JStr ''medium'')))) s of
                 (Inr rs, s1) \<Rightarrow> (json 201 (first_row rs), detach (observe_db ''insert'' e s1))
               | (Inl m, s1) \<Rightarrow>
                   (json 500 (ErrorBody ''Internal server error''),
                    console_error ''Error creating task:'' m s1)))"

text \<open>\<^verbatim>\<open>PUT /api/tasks/:id\<close>\<close>

definition put_task :: "env \<Rightarrow> string \<Rightarrow> body \<Rightarrow> state \<Rightarrow> response \<times> state" where
  "put_task e ident b s =
     (let completed = field b ''completed''
      in case pool_query e 0 UpdateSet
                (update_task (db_clock e) (prepareValue completed) (prepareValue (JStr ident))) s of
           (Inr rs, s1) \<Rightarrow>
             (let s2 = observe_db ''update'' e s1
              in if length rs = 0 then (json 404 (ErrorBody ''Task not found''), s2)
                 else (json 200 (first_row rs), detach s2))
         | (Inl m, s1) \<Rightarrow>
             (json 500 (ErrorBody ''Internal server error''),
              console_error ''Error updating task:'' m s1))"

text \<open>\<^verbatim>\<open>DELETE /api/tasks/:id\<close>\<close>

definition delete_task_handler :: "env \<Rightarrow> string \<Rightarrow> state \<Rightarrow> response \<times> state" where
  "delete_task_handler e ident s =
     (case pool_query e 0 DeleteFrom (delete_task (prepareValue (JStr ident))) s of
        (Inr rs, s1) \<Rightarrow>
          (let s2 = observe_db ''delete'' e s1
           in if length rs = 0 then (json 404 (ErrorBody ''Task not found''), s2)
              else (json 200 (MessageBody ''Task deleted successfully''), detach s2))
      | (Inl m, s1) \<Rightarrow>
          (json 500 (ErrorBody ''Internal server error''),
           console_error ''Error deleting task:'' m s1))"

text \<open>\<^verbatim>\<open>GET /api/stats\<close>\<close>

definition js_minus :: "int option \<Rightarrow> int option \<Rightarrow> int option" where
  "js_minus a b = (case (a, b) of (Some x, Some y) \<Rightarrow> Some (x - y) | _ \<Rightarrow> None)"

definition get_stats :: "env \<Rightarrow> state \<Rightarrow> response \<times> state" where
  "get_stats e s =
     (case pool_query e 0 CountTotal count_total s of
        (Inl m, s1) \<Rightarrow>
          (json 500 (ErrorBody ''Internal server error''),
           console_error ''Error fetching stats:'' m s1)
      | (Inr totalResult, s1) \<Rightarrow>
          (case pool_query e 1 CountCompleted count_completed s1 of
             (Inl m, s2) \<Rightarrow>
               (json 500 (ErrorBody ''Internal server error''),
                console_error ''Error fetching stats:'' m s2)
           | (Inr completedResult, s2) \<Rightarrow>
               (json 200 (StatsBody (parseInt totalResult) (parseInt completedResult)
                            (js_minus (parseInt totalResult) (parseInt completedResult))),
                observe_db ''select'' e s2)))"

text \<open>\<^verbatim>\<open>async function updateTaskMetrics()\<close>\<close>

definition updateTaskMetrics :: "env \<Rightarrow> state \<Rightarrow> state" where
  "updateTaskMetrics e s =
     (case pool_query e 0 CountTotal count_total s of
        (Inl m, s1) \<Rightarrow> console_error ''Error updating task metrics:'' m s1
      | (Inr totalResult, s1) \<Rightarrow>
          (case pool_query e 1 CountCompleted count_completed s1 of
             (Inl m, s2) \<Rightarrow> console_error ''Error updating task metrics:'' m s2
           | (Inr completedResult, s2) \<Rightarrow>
               s2\<lparr>tasksTotal := parseInt totalResult, tasksCompleted := parseInt completedResult\<rparr>))"

text \<open>The rest of \<^verbatim>\<open>updateTaskMetrics\<close> after its first \<^verbatim>\<open>await\<close>, for a call that was
  started without being awaited.\<close>

definition updateTaskMetrics_resumed :: "env \<Rightarrow> state \<Rightarrow> state" where
  "updateTaskMetrics_resumed e s =
     (case settle e 0 count_total s of
        (Inl m, s1) \<Rightarrow> console_error ''Error updating task metrics:'' m s1
      | (Inr totalResult, s1) \<Rightarrow>
          (case pool_query e 1 CountCompleted count_completed s1 of
             (Inl m, s2) \<Rightarrow> console_error ''Error updating task metrics:'' m s2
           | (Inr completedResult, s2) \<Rightarrow>
               s2\<lparr>tasksTotal := parseInt totalResult, tasksCompleted := parseInt completedResult\<rparr>))"

section \<open>The middleware chain\<close>

text \<open>
  The framework resolves the route of a request; \<open>matched\<close> is the handler it found
  (\<^verbatim>\<open>req.route\<close>), \<open>id_param\<close> is \<^verbatim>\<open>req.params.id\<close>, and \<open>body_error\<close> is the status
  and the stack text of the error with which the JSON body parser rejects the body, if it
  does.
\<close>

datatype handler = GetMetrics | GetHealth | GetApiHealth | GetTasks | PostTasks
  | PutTask | DeleteTask | GetStats

fun route_path :: "handler \<Rightarrow> string" where
  "route_path GetMetrics = ''/metrics''"
| "route_path GetHealth = ''/health''"
| "route_path GetApiHealth = ''/api/health''"
| "route_path GetTasks = ''/api/tasks''"
| "route_path PostTasks = ''/api/tasks''"
| "route_path PutTask = ''/api/tasks/:id''"
| "route_path DeleteTask = ''/api/tasks/:id''"
| "route_path GetStats = ''/api/stats''"

record request =
  req_method :: string
  path :: string
  matched :: "handler option"
  id_param :: string
  req_body :: body
  body_error :: "(nat \<times> string) option"

text \<open>\<^verbatim>\<open>GET /metrics\<close>: the rendered registry (its text is not modelled).\<close>

definition get_metrics :: "env \<Rightarrow> state \<Rightarrow> response \<times> state" where
  "get_metrics e s = (json 200 Exposition, s)"

text \<open>The routes; a request that matches none is answered 404 by the framework.\<close>

definition router :: "env \<Rightarrow> request \<Rightarrow> state \<Rightarrow> response \<times> state" where
  "router e rq s =
     (case matched rq of
        None \<Rightarrow> (json 404 Html, s)
      | Some GetMetrics \<Rightarrow> get_metrics e s
      | Some GetHealth \<Rightarrow> get_health e s
      | Some GetApiHealth \<Rightarrow> get_api_health e s
      | Some GetTasks \<Rightarrow> get_tasks e s
      | Some PostTasks \<Rightarrow> post_tasks e (req_body rq) s
      | Some PutTask \<Rightarrow> put_task e (id_param rq) (req_body rq) s
      | Some DeleteTask \<Rightarrow> delete_task_handler e (id_param rq) s
      | Some GetStats \<Rightarrow> get_stats e s)"

text \<open>
  The listener that the metrics middleware puts on the response's \<^verbatim>\<open>finish\<close> event:
  \<^verbatim>\<open>route = req.route ? req.route.path : req.path\<close>, then
  \<^verbatim>\<open>httpRequestDuration.labels(...).observe(duration)\<close>, then
  \<^verbatim>\<open>httpRequestTotal.labels(...).inc()\<close>. The listener has no \<^verbatim>\<open>try\<close>: when one of the two
  calls throws, what follows it in the listener is not run and the exception escapes to
  the event loop.
\<close>

definition route_label :: "request \<Rightarrow> string" where
  "route_label rq = (case matched rq of Some h \<Rightarrow> route_path h | None \<Rightarrow> path rq)"

definition on_finish :: "env \<Rightarrow> request \<Rightarrow> response \<Rightarrow> state \<Rightarrow> state" where
  "on_finish e rq res s =
     (let l = (req_method rq, route_label rq, status res)
      in case throws e 0 of
           Some m \<Rightarrow> s\<lparr>uncaught := uncaught s @ [m]\<rparr>
         | None \<Rightarrow>
             (let s1 = s\<lparr>httpRequestDuration := httpRequestDuration s @ [(l, request_ms e)]\<rparr>
              in case throws e 1 of
                   Some m \<Rightarrow> s1\<lparr>uncaught := uncaught s1 @ [m]\<rparr>
                 | None \<Rightarrow> s1\<lparr>httpRequestTotal :=
                                  (httpRequestTotal s1)(l := httpRequestTotal s1 l + 1)\<rparr>))"

text \<open>
  \<^verbatim>\<open>app.use(cors()); app.use(bodyParser.json()); app.use(<metrics middleware>)\<close>, then
  the routes. With its default options \<^verbatim>\<open>cors()\<close> answers every \<^verbatim>\<open>OPTIONS\<close> request
  itself with 204; the body parser hands a body it cannot read to the framework's error
  handler, which writes the error's stack to the console and answers with the error's
  status. Neither passes such a request on.
\<close>

definition cors :: "request \<Rightarrow> (state \<Rightarrow> response \<times> state) \<Rightarrow> state \<Rightarrow> response \<times> state" where
  "cors rq next s = (if req_method rq = ''OPTIONS'' then (json 204 Empty, s) else next s)"

definition bodyParser_json :: "request \<Rightarrow> (state \<Rightarrow> response \<times> state) \<Rightarrow> state \<Rightarrow> response \<times> state" where
  "bodyParser_json rq next s =
     (case body_error rq of
        Some (c, stack) \<Rightarrow> (json c Html, s\<lparr>console := console s @ [(stack, [])]\<rparr>)
      | None \<Rightarrow> next s)"

definition metrics_middleware ::
    "env \<Rightarrow> request \<Rightarrow> (state \<Rightarrow> response \<times> state) \<Rightarrow> state \<Rightarrow> response \<times> state" where
  "metrics_middleware e rq next s = (let (res, s1) = next s in (res, on_finish e rq res s1))"

definition app :: "env \<Rightarrow> request \<Rightarrow> state \<Rightarrow> response \<times> state" where
  "app e rq = cors rq (bodyParser_json rq (metrics_middleware e rq (router e rq)))"

section \<open>Start-up and background work\<close>

text \<open>
  \<^verbatim>\<open>updateTaskMetrics(); setInterval(updateTaskMetrics, 30000);\<close> at the end of the
  module: one refresh is started without being awaited, and a timer with a period of
  30000 milliseconds is registered for the same function; nothing in the module clears or
  changes the timer.
\<close>

definition startup :: "state \<Rightarrow> state" where
  "startup s = (let s1 = detach s in s1\<lparr>intervals := intervals s1 @ [30000]\<rparr>)"

text \<open>
  What the event loop runs: a request, the callback of a registered timer of the given
  period, or the rest of a refresh started earlier without being awaited. Once an
  exception has escaped, the process has ended and runs nothing more.
\<close>

datatype event = Request request | TimerFires nat | Resume

definition step :: "env \<Rightarrow> event \<Rightarrow> state \<Rightarrow> response option \<times> state" where
  "step e ev s =
     (if uncaught s \<noteq> [] then (None, s)
      else (case ev of
              Request rq \<Rightarrow> (let (res, s1) = app e rq s in (Some res, s1))
            | TimerFires p \<Rightarrow>
                (if p \<in> set (intervals s) then (None, updateTaskMetrics e s) else (None, s))
            | Resume \<Rightarrow>
                (if 0 < detached s
                 then (None, updateTaskMetrics_resumed e (s\<lparr>detached := detached s - 1\<rparr>))
                 else (None, s))))"

text \<open>A freshly started process over a given table.\<close>

definition init :: "db \<Rightarrow> state" where
  "init d = \<lparr>store = d, issued = [], httpRequestDuration = [], httpRequestTotal = (\<lambda>l. 0),
            dbQueryDuration = [], tasksTotal = Some 0, tasksCompleted = Some 0,
            console = [], detached = 0, intervals = [], uncaught = []\<rparr>"

definition empty_db :: db where
  "empty_db = \<lparr>rows = [], next_id = 1\<rparr>"

text \<open>All storage calls of the activation succeed in reaching the database.\<close>

definition reachable :: env where
  "reachable = \<lparr>fault = (\<lambda>k. None), db_clock = 100, date = 100, query_ms = 3, request_ms = 5,
                 throws = (\<lambda>k. None)\<rparr>"

text \<open>Every storage call of the activation is rejected: the database is down.\<close>

definition unreachable :: env where
  "unreachable = \<lparr>fault = (\<lambda>k. Some ''connect ECONNREFUSED''), db_clock = 100, date = 100,
                   query_ms = 3, request_ms = 5, throws = (\<lambda>k. None)\<rparr>"

section \<open>Sample data and auxiliary notions\<close>

text \<open>The value of \<^verbatim>\<open>completed\<close> is one that the database reads as a boolean or as
  \<^verbatim>\<open>NULL\<close>.\<close>

definition reads_as_boolean :: "jsval \<Rightarrow> bool" where
  "reads_as_boolean v = (case prepareValue v of None \<Rightarrow> True | Some t \<Rightarrow> bool_in t \<noteq> None)"

text \<open>A table with one completed and one pending task.\<close>

definition two_tasks :: db where
  "two_tasks =
     \<lparr>rows = [\<lparr>task_id = 1, title = ''Write spec'', priority = Some ''medium'',
                completed = Some True, created_at = 10, updated_at = 20\<rparr>,
              \<lparr>task_id = 2, title = ''Review'', priority = Some ''high'',
                completed = Some False, created_at = 30, updated_at = 30\<rparr>],
      next_id = 3\<rparr>"

text \<open>Sample requests: a routed one, one that matches no route, a CORS preflight, and a
  \<^verbatim>\<open>POST\<close> whose body is not JSON.\<close>

definition stats_request :: request where
  "stats_request = \<lparr>req_method = ''GET'', path = ''/api/stats'', matched = Some GetStats,
                     id_param = [], req_body = Map.empty, body_error = None\<rparr>"

definition unknown_request :: request where
  "unknown_request = \<lparr>req_method = ''GET'', path = ''/api/users/17'', matched = None,
                       id_param = [], req_body = Map.empty, body_error = None\<rparr>"

definition preflight_request :: request where
  "preflight_request = \<lparr>req_method = ''OPTIONS'', path = ''/api/tasks'', matched = None,
                         id_param = [], req_body = Map.empty, body_error = None\<rparr>"

definition malformed_request :: request where
  "malformed_request = \<lparr>req_method = ''POST'', path = ''/api/tasks'', matched = Some PostTasks,
                         id_param = [], req_body = Map.empty,
                         body_error = Some (400, ''SyntaxError: Unexpected token'')\<rparr>"

text \<open>What the routes leave alone: the request metrics, the escaped exceptions and the
  timers.\<close>

definition kept :: "state \<Rightarrow> state \<Rightarrow> bool" where
  "kept s s' \<longleftrightarrow> httpRequestDuration s' = httpRequestDuration s \<and>
     httpRequestTotal s' = httpRequestTotal s \<and> uncaught s' = uncaught s \<and>
     intervals s' = intervals s"

text \<open>A table whose sequence is used up, and one whose sequence stands at an id that a row
  inserted by other means already has.\<close>

definition exhausted_db :: db where
  "exhausted_db = \<lparr>rows = [], next_id = 2147483648\<rparr>"

definition clashing_db :: db where
  "clashing_db =
     \<lparr>rows = [\<lparr>task_id = 7, title = ''Imported'', priority = None, completed = None,
                created_at = 1, updated_at = 1\<rparr>],
      next_id = 7\<rparr>"

text \<open>A title of one hundred characters of three bytes each (U+65E5).\<close>

definition nichi :: string where
  "nichi = concat (replicate 100 [CHR 0xE6, CHR 0x97, CHR 0xA5])"

text \<open>An activation in which the registry calls of the \<^verbatim>\<open>finish\<close> listener throw, and one
  in which the first storage call succeeds and every later one is rejected.\<close>

definition throwing :: env where
  "throwing = \<lparr>fault = (\<lambda>k. None), db_clock = 100, date = 100, query_ms = 3, request_ms = 5,
                throws = (\<lambda>k. Some ''TypeError'')\<rparr>"

definition flaky :: env where
  "flaky = \<lparr>fault = (\<lambda>k. if k = 0 then None else Some ''Connection terminated''),
             db_clock = 100, date = 100, query_ms = 3, request_ms = 5, throws = (\<lambda>k. None)\<rparr>"

section \<open>Decimal text is read back\<close>

lemma digits_nonempty: "digits n \<noteq> []"
  by (subst digits.simps) simp

lemma digit_char: "d < 10 \<Longrightarrow> (of_char (char_of (48 + d :: nat)) :: nat) = 48 + d"
  by (simp add: of_char_of)

lemma is_digit_char: "d < 10 \<Longrightarrow> is_digit (char_of (48 + d :: nat))"
  by (simp add: is_digit_def digit_char)

lemma digits_all: "list_all is_digit (digits n)"
proof (induction n rule: digits.induct)
  case (1 n)
  show ?case
  proof (cases "n < 10")
    case True
    then show ?thesis by (subst digits.simps) (simp add: is_digit_char)
  next
    case False
    with 1 show ?thesis by (subst digits.simps) (simp add: is_digit_char)
  qed
qed

lemma digits_value_snoc:
  "digits_value acc (cs @ [c]) = 10 * digits_value acc cs + ((of_char c :: nat) - 48)"
  by (induction cs arbitrary: acc) simp_all

lemma digits_value_digits: "digits_value 0 (digits n) = n"
proof (induction n rule: digits.induct)
  case (1 n)
  show ?case
  proof (cases "n < 10")
    case True
    then show ?thesis by (subst digits.simps) (simp add: digit_char)
  next
    case False
    with 1 show ?thesis
      by (subst digits.simps) (simp add: digits_value_snoc digit_char)
  qed
qed

lemma is_digit_not_space: "is_digit c \<Longrightarrow> \<not> is_space c"
  by (auto simp: is_digit_def is_space_def)

lemma is_digit_not_sign: "is_digit c \<Longrightarrow> c \<noteq> CHR ''-'' \<and> c \<noteq> CHR ''+'' \<and> c \<noteq> CHR ''x'' \<and> c \<noteq> CHR ''X''"
  by (auto simp: is_digit_def)

lemma parseInt_digits:
  assumes "ds \<noteq> []" and "list_all is_digit ds"
  shows "parseInt ds = Some (int (digits_value 0 ds))"
proof -
  obtain c r where ds: "ds = c # r" using assms(1) by (cases ds) auto
  have c: "is_digit c" and r: "list_all is_digit r" using assms(2) ds by auto
  have drop: "dropWhile is_space ds = ds" using c ds by (simp add: is_digit_not_space)
  have sign: "split_sign ds = (False, ds)"
    using c ds by (simp add: split_sign_def is_digit_not_sign)
  have nohex: "take 2 ds \<noteq> ''0x'' \<and> take 2 ds \<noteq> ''0X''"
  proof (cases r)
    case Nil
    then show ?thesis using ds by simp
  next
    case (Cons d r')
    then have "is_digit d" using r by simp
    then show ?thesis using ds Cons is_digit_not_sign[of d] by auto
  qed
  have tw: "takeWhile is_digit ds = ds"
    using assms(2) by (simp add: list_all_iff)
  show ?thesis
    using assms(1) nohex by (simp add: parseInt_def drop sign tw)
qed

lemma parseInt_show_int: "parseInt (show_int (int n)) = Some (int n)"
  by (simp add: show_int_def parseInt_digits digits_nonempty digits_all digits_value_digits)

section \<open>Evaluation and storage lemmas\<close>

lemmas input_defs = int4_in_def bool_in_def trim_def is_space_def is_digit_def lower_def
  split_sign_def varchar_in_def

lemmas trace_defs = pool_query_def json_def observe_db_def console_error_def detach_def Let_def

lemmas sample_defs = reachable_def unreachable_def init_def empty_db_def two_tasks_def

lemma update_task_bad_id:
  "int4_in ident = None \<Longrightarrow> \<exists>m. update_task c p (Some ident) d = Inl m"
  by (simp add: update_task_def split: option.splits)

lemma delete_task_bad_id:
  "int4_in ident = None \<Longrightarrow> \<exists>m. delete_task (Some ident) d = Inl m"
  by (simp add: delete_task_def)

lemma update_task_no_match:
  assumes "int4_in ident = Some i" and "\<forall>r\<in>set (rows d). task_id r \<noteq> i"
    and "reads_as_boolean v"
  shows "update_task c (prepareValue v) (Some ident) d = Inr ([], d)"
proof -
  have keep: "map (\<lambda>r. if task_id r = i then r\<lparr>completed := x, updated_at := c\<rparr> else r) (rows d) = rows d" for x
    using assms(2) by (simp add: map_idI)
  have none: "filter (\<lambda>r. task_id r = i) (rows d) = []"
    using assms(2) by (simp add: filter_empty_conv)
  show ?thesis
    using assms(1,3) by (auto simp: update_task_def reads_as_boolean_def keep none split: option.splits)
qed

lemma delete_task_no_match:
  assumes "int4_in ident = Some i" and "\<forall>r\<in>set (rows d). task_id r \<noteq> i"
  shows "delete_task (Some ident) d = Inr ([], d)"
proof -
  have keep: "filter (\<lambda>r. task_id r \<noteq> i) (rows d) = rows d"
    using assms(2) by (simp add: filter_id_conv)
  have none: "filter (\<lambda>r. task_id r = i) (rows d) = []"
    using assms(2) by (simp add: filter_empty_conv)
  show ?thesis using assms(1) by (simp add: delete_task_def keep none)
qed

lemma put_task_bad_id:
  assumes "int4_in ident = None"
  shows "put_task e ident b s =
           (\<lparr>status = 500, payload = ErrorBody ''Internal server error''\<rparr>,
            console_error ''Error updating task:''
              (case fst (pool_query e 0 UpdateSet (update_task (db_clock e)
                    (prepareValue (field b ''completed'')) (Some ident)) s) of Inl m \<Rightarrow> m | Inr u \<Rightarrow> [])
              (s\<lparr>issued := issued s @ [UpdateSet]\<rparr>))"
proof -
  obtain m where m: "update_task (db_clock e) (prepareValue (field b ''completed'')) (Some ident) (store s) = Inl m"
    using update_task_bad_id[OF assms] by blast
  show ?thesis
    by (cases "fault e 0") (simp_all add: put_task_def pool_query_def m json_def)
qed

lemma delete_bad_id:
  assumes "int4_in ident = None"
  shows "delete_task_handler e ident s =
           (\<lparr>status = 500, payload = ErrorBody ''Internal server error''\<rparr>,
            console_error ''Error deleting task:''
              (case fst (pool_query e 0 DeleteFrom (delete_task (Some ident)) s) of Inl m \<Rightarrow> m | Inr u \<Rightarrow> [])
              (s\<lparr>issued := issued s @ [DeleteFrom]\<rparr>))"
proof -
  obtain m where m: "delete_task (Some ident) (store s) = Inl m"
    using delete_task_bad_id[OF assms] by blast
  show ?thesis
    by (cases "fault e 0") (simp_all add: delete_task_handler_def pool_query_def m json_def)
qed

lemma delete_task_removes:
  assumes "delete_task (Some ident) d = Inr (rs, d')"
  shows "\<exists>i. int4_in ident = Some i \<and> (\<forall>r\<in>set (rows d'). task_id r \<noteq> i)"
  using assms by (auto simp: delete_task_def split: option.splits)

lemma delete_handler_not_found:
  assumes "fault e 0 = None" and "int4_in ident = Some i"
    and "\<forall>r\<in>set (rows (store s)). task_id r \<noteq> i"
  shows "delete_task_handler e ident s =
           (\<lparr>status = 404, payload = ErrorBody ''Task not found''\<rparr>,
            observe_db ''delete'' e (s\<lparr>issued := issued s @ [DeleteFrom]\<rparr>))"
  using assms(1) delete_task_no_match[OF assms(2), of "store s"] assms(3)
  by (simp add: delete_task_handler_def pool_query_def json_def)

lemma put_handler_not_found:
  assumes "fault e 0 = None" and "int4_in ident = Some i"
    and "\<forall>r\<in>set (rows (store s)). task_id r \<noteq> i"
    and "reads_as_boolean (field b ''completed'')"
  shows "put_task e ident b s =
           (\<lparr>status = 404, payload = ErrorBody ''Task not found''\<rparr>,
            observe_db ''update'' e (s\<lparr>issued := issued s @ [UpdateSet]\<rparr>))"
  using assms(1) update_task_no_match[OF assms(2) _ assms(4), of "store s" "db_clock e"] assms(3)
  by (simp add: put_task_def pool_query_def json_def)

lemma delete_handler_ok_removes:
  assumes "status (fst (delete_task_handler e ident s)) = 200"
  shows "\<exists>i. int4_in ident = Some i \<and>
             (\<forall>r\<in>set (rows (store (snd (delete_task_handler e ident s)))). task_id r \<noteq> i)"
proof (cases "fault e 0")
  case (Some m)
  with assms show ?thesis
    by (simp add: delete_task_handler_def pool_query_def json_def)
next
  case None
  show ?thesis
  proof (cases "delete_task (Some ident) (store s)")
    case (Inl m)
    with None assms show ?thesis
      by (simp add: delete_task_handler_def pool_query_def json_def)
  next
    case (Inr p)
    obtain rs d' where p: "p = (rs, d')" by (cases p)
    from delete_task_removes[OF Inr[unfolded p]] None Inr p assms show ?thesis
      by (auto simp: delete_task_handler_def pool_query_def json_def observe_db_def detach_def
               Let_def split: if_splits)
  qed
qed

lemma update_task_null:
  assumes "int4_in ident = Some i"
  shows "update_task c None (Some ident) d =
           Inr (map (\<lambda>r. if task_id r = i then r\<lparr>completed := None, updated_at := c\<rparr> else r)
                  (filter (\<lambda>r. task_id r = i) (rows d)),
                d\<lparr>rows := map (\<lambda>r. if task_id r = i then r\<lparr>completed := None, updated_at := c\<rparr> else r)
                  (rows d)\<rparr>)"
  using assms by (simp add: update_task_def Let_def)

lemma first_row_updated:
  assumes "r \<in> set rs" and "task_id r = i"
  shows "\<exists>r0\<in>set rs. task_id r0 = i \<and>
           map f (filter (\<lambda>r. task_id r = i) rs) \<noteq> [] \<and>
           first_row (map f (filter (\<lambda>r. task_id r = i) rs)) = TaskBody (f r0)"
proof -
  have ne: "filter (\<lambda>r. task_id r = i) rs \<noteq> []"
    using assms by (auto simp: filter_empty_conv)
  then obtain r0 rest where f: "filter (\<lambda>r. task_id r = i) rs = r0 # rest"
    by (cases "filter (\<lambda>r. task_id r = i) rs") auto
  then have "r0 \<in> set (filter (\<lambda>r. task_id r = i) rs)" by simp
  then have "r0 \<in> set rs" "task_id r0 = i" by auto
  then show ?thesis using f by (auto simp: first_row_def)
qed


section \<open>Statistics\<close>

text \<open>
  \<^bold>\<open>C1.\<close> Whenever \<^verbatim>\<open>GET /api/stats\<close> answers 200, its body holds the number of stored
  tasks as \<open>total\<close>, the number of stored tasks whose \<open>completed\<close> is true as
  \<open>completed\<close>, and their difference as \<open>pending\<close>, so that
  \<open>total = completed + pending\<close>; the counts are those of the table at the time of the
  call (the count arrives as decimal text and \<^verbatim>\<open>parseInt\<close> reads it back). The request
  does answer 200 when both count queries reach the database.
\<close>

theorem stats_from_storage:
  "(status (fst (get_stats e s)) = 200 \<longrightarrow>
      (\<exists>t c p.
         payload (fst (get_stats e s)) = StatsBody (Some t) (Some c) (Some p) \<and>
         t = int (length (rows (store s))) \<and>
         c = int (length (filter (\<lambda>r. completed r = Some True) (rows (store s)))) \<and>
         p = t - c \<and>
         t = c + p)) \<and>
   (fault e 0 = None \<and> fault e 1 = None \<longrightarrow> status (fst (get_stats e s)) = 200)"
  by (cases "fault e 0"; cases "fault e 1")
     (simp_all add: get_stats_def pool_query_def count_total_def count_completed_def
        json_def console_error_def observe_db_def js_minus_def parseInt_show_int)

theorem stats_from_storage_witness:
  "status (fst (get_stats reachable (init two_tasks))) = 200 \<and>
   payload (fst (get_stats reachable (init two_tasks))) = StatsBody (Some 2) (Some 1) (Some 1)"
  using stats_from_storage [of reachable "init two_tasks"]
  by (auto simp: reachable_def init_def two_tasks_def)

section \<open>Creating a task without a title\<close>

text \<open>
  \<^bold>\<open>C2.\<close> A \<^verbatim>\<open>POST /api/tasks\<close> whose title is missing or empty (or any other falsy value)
  is answered 400 with \<^verbatim>\<open>{error: "Title is required"}\<close>; the whole state, and with it the
  table, is left as it was, and no storage call is made.
\<close>

theorem post_without_title:
  "\<not> truthy (field b ''title'') \<Longrightarrow>
   post_tasks e b s = (\<lparr>status = 400, payload = ErrorBody ''Title is required''\<rparr>, s)"
  by (simp add: post_tasks_def json_def)

theorem post_without_title_witness:
  "\<not> truthy (field Map.empty ''title'') \<and>
   post_tasks unreachable Map.empty (init two_tasks) =
     (\<lparr>status = 400, payload = ErrorBody ''Title is required''\<rparr>, init two_tasks) \<and>
   \<not> truthy (field [''title'' \<mapsto> JStr [], ''priority'' \<mapsto> JStr ''high''] ''title'') \<and>
   post_tasks reachable [''title'' \<mapsto> JStr [], ''priority'' \<mapsto> JStr ''high''] (init two_tasks) =
     (\<lparr>status = 400, payload = ErrorBody ''Title is required''\<rparr>, init two_tasks)"
  using post_without_title [of Map.empty unreachable "init two_tasks"]
    post_without_title [of "[''title'' \<mapsto> JStr [], ''priority'' \<mapsto> JStr ''high'']" reachable "init two_tasks"]
  by (simp add: field_def)

section \<open>Updating and deleting a task that is not there\<close>

text \<open>
  \<^bold>\<open>C3.\<close> As amended: when the storage call reaches the database and the \<^verbatim>\<open>:id\<close> is a
  32-bit integer numeral that no stored task has, \<^verbatim>\<open>DELETE /api/tasks/:id\<close> is answered
  404 with \<^verbatim>\<open>{error: "Task not found"}\<close> and the table is unchanged; so is
  \<^verbatim>\<open>PUT /api/tasks/:id\<close> when, in addition, the value of \<^verbatim>\<open>completed\<close> is one the
  database reads as a boolean or as \<^verbatim>\<open>NULL\<close>. A second \<^verbatim>\<open>DELETE\<close> of an id whose first
  \<^verbatim>\<open>DELETE\<close> answered 200 is answered 404 when it reaches the database.
\<close>

theorem absent_task_not_found:
  "(fault e 0 = None \<and> int4_in ident = Some i \<and> (\<forall>r\<in>set (rows (store s)). task_id r \<noteq> i) \<longrightarrow>
      fst (delete_task_handler e ident s) = \<lparr>status = 404, payload = ErrorBody ''Task not found''\<rparr> \<and>
      store (snd (delete_task_handler e ident s)) = store s \<and>
      (reads_as_boolean (field b ''completed'') \<longrightarrow>
         fst (put_task e ident b s) = \<lparr>status = 404, payload = ErrorBody ''Task not found''\<rparr> \<and>
         store (snd (put_task e ident b s)) = store s)) \<and>
   (status (fst (delete_task_handler e ident s)) = 200 \<and> fault e' 0 = None \<longrightarrow>
      fst (delete_task_handler e' ident (snd (delete_task_handler e ident s))) =
        \<lparr>status = 404, payload = ErrorBody ''Task not found''\<rparr>)"
proof (intro conjI impI)
  assume h: "fault e 0 = None \<and> int4_in ident = Some i \<and> (\<forall>r\<in>set (rows (store s)). task_id r \<noteq> i)"
  then show "fst (delete_task_handler e ident s) = \<lparr>status = 404, payload = ErrorBody ''Task not found''\<rparr>"
    by (simp add: delete_handler_not_found)
  from h show "store (snd (delete_task_handler e ident s)) = store s"
    by (simp add: delete_handler_not_found observe_db_def)
  assume c: "reads_as_boolean (field b ''completed'')"
  from h c show "fst (put_task e ident b s) = \<lparr>status = 404, payload = ErrorBody ''Task not found''\<rparr>"
    by (simp add: put_handler_not_found)
  from h c show "store (snd (put_task e ident b s)) = store s"
    by (simp add: put_handler_not_found observe_db_def)
next
  assume h: "status (fst (delete_task_handler e ident s)) = 200 \<and> fault e' 0 = None"
  then obtain j where j: "int4_in ident = Some j"
      "\<forall>r\<in>set (rows (store (snd (delete_task_handler e ident s)))). task_id r \<noteq> j"
    using delete_handler_ok_removes by blast
  from h j show "fst (delete_task_handler e' ident (snd (delete_task_handler e ident s))) =
        \<lparr>status = 404, payload = ErrorBody ''Task not found''\<rparr>"
    by (simp add: delete_handler_not_found)
qed

theorem absent_task_not_found_witness:
  "int4_in ''9'' = Some 9 \<and> map task_id (rows (store (init two_tasks))) = [1, 2] \<and>
   reads_as_boolean (field [''completed'' \<mapsto> JBool True] ''completed'') \<and>
   fst (delete_task_handler reachable ''9'' (init two_tasks)) =
     \<lparr>status = 404, payload = ErrorBody ''Task not found''\<rparr> \<and>
   store (snd (delete_task_handler reachable ''9'' (init two_tasks))) = two_tasks \<and>
   fst (put_task reachable ''9'' [''completed'' \<mapsto> JBool True] (init two_tasks)) =
     \<lparr>status = 404, payload = ErrorBody ''Task not found''\<rparr> \<and>
   store (snd (put_task reachable ''9'' [''completed'' \<mapsto> JBool True] (init two_tasks))) = two_tasks \<and>
   status (fst (delete_task_handler reachable ''2'' (init two_tasks))) = 200 \<and>
   fst (delete_task_handler reachable ''2'' (snd (delete_task_handler reachable ''2'' (init two_tasks)))) =
     \<lparr>status = 404, payload = ErrorBody ''Task not found''\<rparr>"
proof -
  have up: "fault reachable 0 = None" by (simp add: reachable_def)
  have nine: "int4_in ''9'' = Some 9" by (simp add: input_defs)
  have two: "int4_in ''2'' = Some 2" by (simp add: input_defs)
  have none: "\<forall>r\<in>set (rows (store (init two_tasks))). task_id r \<noteq> 9"
    by (simp add: init_def two_tasks_def)
  have bool: "reads_as_boolean (field [''completed'' \<mapsto> JBool True] ''completed'')"
    by (simp add: reads_as_boolean_def field_def input_defs)
  have first: "status (fst (delete_task_handler reachable ''2'' (init two_tasks))) = 200"
    by (simp add: delete_task_handler_def delete_task_def trace_defs first_row_def field_def js_or_def two reachable_def
          init_def two_tasks_def)
  have ids: "map task_id (rows (store (init two_tasks))) = [1, 2]"
    by (simp add: init_def two_tasks_def)
  show ?thesis
    using up nine none ids bool first
      absent_task_not_found [of reachable "''9''" 9 "init two_tasks" "[''completed'' \<mapsto> JBool True]" reachable]
      absent_task_not_found [of reachable "''2''" 2 "init two_tasks" Map.empty reachable]
    by (simp add: init_def)
qed

text \<open>
  The claim as stated, for every request whose id matches no stored task, fails: on an
  empty table the id \<^verbatim>\<open>abc\<close> is answered 500, so is a \<^verbatim>\<open>PUT\<close> whose \<^verbatim>\<open>completed\<close> is
  the text \<^verbatim>\<open>banana\<close>, and so is any \<^verbatim>\<open>DELETE\<close> while the database cannot be reached.
\<close>

theorem absent_task_not_found_counterexample:
  "rows (store (init empty_db)) = [] \<and>
   fst (delete_task_handler reachable ''abc'' (init empty_db)) =
     \<lparr>status = 500, payload = ErrorBody ''Internal server error''\<rparr> \<and>
   fst (put_task reachable ''abc'' [''completed'' \<mapsto> JBool True] (init empty_db)) =
     \<lparr>status = 500, payload = ErrorBody ''Internal server error''\<rparr> \<and>
   fst (put_task reachable ''9'' [''completed'' \<mapsto> JStr ''banana''] (init empty_db)) =
     \<lparr>status = 500, payload = ErrorBody ''Internal server error''\<rparr> \<and>
   fst (delete_task_handler unreachable ''9'' (init empty_db)) =
     \<lparr>status = 500, payload = ErrorBody ''Internal server error''\<rparr>"
  by (simp add: delete_task_handler_def put_task_def delete_task_def update_task_def
        trace_defs first_row_def field_def js_or_def input_defs reachable_def unreachable_def init_def empty_db_def)

section \<open>An id that is not an integer\<close>

text \<open>
  \<^bold>\<open>C9.\<close> When the \<^verbatim>\<open>:id\<close> of a \<^verbatim>\<open>PUT\<close> or \<^verbatim>\<open>DELETE\<close> on \<^verbatim>\<open>/api/tasks/:id\<close> is not an
  integer numeral, the storage call fails, the handler answers 500 with
  \<^verbatim>\<open>{error: "Internal server error"}\<close> (not 404), and the table is unchanged.
\<close>

theorem invalid_id_is_server_error:
  assumes "int4_in ident = None"
  shows "(\<exists>m. fst (pool_query e 0 UpdateSet (update_task (db_clock e)
                  (prepareValue (field b ''completed'')) (prepareValue (JStr ident))) s) = Inl m) \<and>
         fst (put_task e ident b s) = \<lparr>status = 500, payload = ErrorBody ''Internal server error''\<rparr> \<and>
         store (snd (put_task e ident b s)) = store s \<and>
         (\<exists>m. fst (pool_query e 0 DeleteFrom (delete_task (prepareValue (JStr ident))) s) = Inl m) \<and>
         fst (delete_task_handler e ident s) = \<lparr>status = 500, payload = ErrorBody ''Internal server error''\<rparr> \<and>
         store (snd (delete_task_handler e ident s)) = store s"
proof -
  obtain m1 where m1: "update_task (db_clock e) (prepareValue (field b ''completed'')) (Some ident) (store s) = Inl m1"
    using update_task_bad_id[OF assms] by blast
  obtain m2 where m2: "delete_task (Some ident) (store s) = Inl m2"
    using delete_task_bad_id[OF assms] by blast
  have q1: "\<exists>m. fst (pool_query e 0 UpdateSet (update_task (db_clock e)
                  (prepareValue (field b ''completed'')) (prepareValue (JStr ident))) s) = Inl m"
    by (cases "fault e 0") (simp_all add: pool_query_def m1)
  have q2: "\<exists>m. fst (pool_query e 0 DeleteFrom (delete_task (prepareValue (JStr ident))) s) = Inl m"
    by (cases "fault e 0") (simp_all add: pool_query_def m2)
  show ?thesis
    using q1 q2 by (simp add: put_task_bad_id[OF assms] delete_bad_id[OF assms] console_error_def)
qed

theorem invalid_id_is_server_error_witness:
  "int4_in ''abc'' = None \<and>
   fst (put_task reachable ''abc'' [''completed'' \<mapsto> JBool True] (init two_tasks)) =
     \<lparr>status = 500, payload = ErrorBody ''Internal server error''\<rparr> \<and>
   store (snd (put_task reachable ''abc'' [''completed'' \<mapsto> JBool True] (init two_tasks))) = two_tasks \<and>
   fst (delete_task_handler reachable ''abc'' (init two_tasks)) =
     \<lparr>status = 500, payload = ErrorBody ''Internal server error''\<rparr> \<and>
   store (snd (delete_task_handler reachable ''abc'' (init two_tasks))) = two_tasks"
proof -
  have bad: "int4_in ''abc'' = None" by (simp add: input_defs)
  show ?thesis
    using bad invalid_id_is_server_error [OF bad, of reachable "[''completed'' \<mapsto> JBool True]" "init two_tasks"]
    by (simp add: init_def)
qed

section \<open>Health probes\<close>

text \<open>
  \<^bold>\<open>C5.\<close> \<^verbatim>\<open>GET /api/health\<close> answers 200 with \<^verbatim>\<open>{status: "OK", message: "Server is running"}\<close>
  in every state and whatever the database does, without touching the state.
  \<^verbatim>\<open>GET /health\<close> answers 503 exactly when its \<^verbatim>\<open>SELECT 1\<close> fails, then with status
  \<^verbatim>\<open>unhealthy\<close>, database \<^verbatim>\<open>disconnected\<close>, the error's message and a time stamp; it
  answers 200 exactly when the query succeeds, then with status \<^verbatim>\<open>healthy\<close>, database
  \<^verbatim>\<open>connected\<close> and a time stamp.
\<close>

theorem health_probes:
  "get_api_health e s = (\<lparr>status = 200, payload = Live ''OK'' ''Server is running''\<rparr>, s) \<and>
   (status (fst (get_health e s)) = 503 \<longleftrightarrow>
      (\<exists>m. fst (pool_query e 0 SelectOne select_one s) = Inl m)) \<and>
   (status (fst (get_health e s)) = 200 \<longleftrightarrow>
      fst (pool_query e 0 SelectOne select_one s) = Inr ()) \<and>
   (\<forall>m. fst (pool_query e 0 SelectOne select_one s) = Inl m \<longrightarrow>
      payload (fst (get_health e s)) = Ready ''unhealthy'' ''disconnected'' (Some m) (date e)) \<and>
   (fst (pool_query e 0 SelectOne select_one s) = Inr () \<longrightarrow>
      payload (fst (get_health e s)) = Ready ''healthy'' ''connected'' None (date e))"
  by (cases "fault e 0")
     (simp_all add: get_api_health_def get_health_def pool_query_def select_one_def json_def)

theorem health_probes_witness:
  "fst (pool_query unreachable 0 SelectOne select_one (init two_tasks)) = Inl ''connect ECONNREFUSED'' \<and>
   fst (get_health unreachable (init two_tasks)) =
     \<lparr>status = 503, payload = Ready ''unhealthy'' ''disconnected'' (Some ''connect ECONNREFUSED'') 100\<rparr> \<and>
   fst (pool_query reachable 0 SelectOne select_one (init two_tasks)) = Inr () \<and>
   fst (get_health reachable (init two_tasks)) =
     \<lparr>status = 200, payload = Ready ''healthy'' ''connected'' None 100\<rparr>"
proof -
  have down: "fst (pool_query unreachable 0 SelectOne select_one (init two_tasks)) = Inl ''connect ECONNREFUSED''"
    by (simp add: pool_query_def unreachable_def)
  have up: "fst (pool_query reachable 0 SelectOne select_one (init two_tasks)) = Inr ()"
    by (simp add: pool_query_def reachable_def select_one_def)
  have "status (fst (get_health unreachable (init two_tasks))) = 503"
    and "payload (fst (get_health unreachable (init two_tasks))) =
           Ready ''unhealthy'' ''disconnected'' (Some ''connect ECONNREFUSED'') (date unreachable)"
    using health_probes [of unreachable "init two_tasks"] down by auto
  moreover have "status (fst (get_health reachable (init two_tasks))) = 200"
    and "payload (fst (get_health reachable (init two_tasks))) =
           Ready ''healthy'' ''connected'' None (date reachable)"
    using health_probes [of reachable "init two_tasks"] up by auto
  ultimately show ?thesis
    using down up by (simp add: reachable_def unreachable_def)
qed

section \<open>Updating a task without a \<^verbatim>\<open>completed\<close> field\<close>

text \<open>
  \<^bold>\<open>C10.\<close> As amended: when the storage call reaches the database, a \<^verbatim>\<open>PUT /api/tasks/:id\<close>
  on the id of a stored task whose body has no \<^verbatim>\<open>completed\<close> field is answered 200 with
  the updated row; the absent value is passed on unvalidated, so the row's \<open>completed\<close>
  becomes \<^verbatim>\<open>NULL\<close> and its \<open>updated_at\<close> the current time stamp; other rows are untouched.
\<close>

theorem put_without_completed:
  assumes "fault e 0 = None" and "int4_in ident = Some i"
    and "r \<in> set (rows (store s))" and "task_id r = i" and "b ''completed'' = None"
  shows "status (fst (put_task e ident b s)) = 200 \<and>
         (\<exists>r0\<in>set (rows (store s)). task_id r0 = i \<and>
            payload (fst (put_task e ident b s)) =
              TaskBody (r0\<lparr>completed := None, updated_at := db_clock e\<rparr>)) \<and>
         rows (store (snd (put_task e ident b s))) =
           map (\<lambda>r. if task_id r = i then r\<lparr>completed := None, updated_at := db_clock e\<rparr> else r)
             (rows (store s))"
proof -
  let ?f = "\<lambda>r. if task_id r = i then r\<lparr>completed := None, updated_at := db_clock e\<rparr> else r"
  obtain r0 where r0: "r0 \<in> set (rows (store s))" "task_id r0 = i"
      "map ?f (filter (\<lambda>r. task_id r = i) (rows (store s))) \<noteq> []"
      "first_row (map ?f (filter (\<lambda>r. task_id r = i) (rows (store s)))) = TaskBody (?f r0)"
    using first_row_updated[OF assms(3,4), of ?f] by blast
  have c: "prepareValue (field b ''completed'') = None"
    using assms(5) by (simp add: field_def)
  have run: "put_task e ident b s =
      (json 200 (TaskBody (?f r0)),
       detach (observe_db ''update'' e
         (s\<lparr>issued := issued s @ [UpdateSet],
            store := (store s)\<lparr>rows := map ?f (rows (store s))\<rparr>\<rparr>)))"
    using assms(1) r0(3,4)
    by (simp add: put_task_def c update_task_null[OF assms(2)] pool_query_def Let_def)
  show ?thesis
    using r0(1,2) by (auto simp: run json_def detach_def observe_db_def)
qed

theorem put_without_completed_witness:
  "int4_in ''1'' = Some 1 \<and>
   fst (put_task reachable ''1'' Map.empty (init two_tasks)) =
     \<lparr>status = 200,
      payload = TaskBody \<lparr>task_id = 1, title = ''Write spec'', priority = Some ''medium'',
        completed = None, created_at = 10, updated_at = 100\<rparr>\<rparr> \<and>
   rows (store (snd (put_task reachable ''1'' Map.empty (init two_tasks)))) =
     [\<lparr>task_id = 1, title = ''Write spec'', priority = Some ''medium'',
        completed = None, created_at = 10, updated_at = 100\<rparr>,
      \<lparr>task_id = 2, title = ''Review'', priority = Some ''high'',
        completed = Some False, created_at = 30, updated_at = 30\<rparr>]"
proof -
  have up: "fault reachable 0 = None" by (simp add: reachable_def)
  have one: "int4_in ''1'' = Some 1" by (simp add: input_defs)
  have row: "\<lparr>task_id = 1, title = ''Write spec'', priority = Some ''medium'',
        completed = Some True, created_at = 10, updated_at = 20\<rparr> \<in> set (rows (store (init two_tasks)))"
    by (simp add: sample_defs)
  have "status (fst (put_task reachable ''1'' Map.empty (init two_tasks))) = 200 \<and>
        payload (fst (put_task reachable ''1'' Map.empty (init two_tasks))) =
          TaskBody \<lparr>task_id = 1, title = ''Write spec'', priority = Some ''medium'',
            completed = None, created_at = 10, updated_at = 100\<rparr> \<and>
        rows (store (snd (put_task reachable ''1'' Map.empty (init two_tasks)))) =
          [\<lparr>task_id = 1, title = ''Write spec'', priority = Some ''medium'',
             completed = None, created_at = 10, updated_at = 100\<rparr>,
           \<lparr>task_id = 2, title = ''Review'', priority = Some ''high'',
             completed = Some False, created_at = 30, updated_at = 30\<rparr>]"
    using put_without_completed [OF up one row, of Map.empty]
    by (auto simp: sample_defs)
  then show ?thesis
    using one
    by (cases "fst (put_task reachable ''1'' Map.empty (init two_tasks))") simp
qed

text \<open>
  The claim as stated, for every such request, fails while the database cannot be
  reached: the request on the stored id 1 is answered 500 and nothing is overwritten.
\<close>

theorem put_without_completed_counterexample:
  "map task_id (rows (store (init two_tasks))) = [1, 2] \<and>
   fst (put_task unreachable ''1'' Map.empty (init two_tasks)) =
     \<lparr>status = 500, payload = ErrorBody ''Internal server error''\<rparr> \<and>
   store (snd (put_task unreachable ''1'' Map.empty (init two_tasks))) = two_tasks"
  by (simp add: put_task_def trace_defs sample_defs)

section \<open>Creating a task\<close>

lemma utf8_from_ascii:
  assumes "0 < (of_char c :: nat)" and "(of_char c :: nat) < 128"
  shows "utf8_from 0 128 191 (replicate n c @ r) = utf8_from 0 128 191 r"
  using assms by (induction n) simp_all

lemma utf8_valid_ascii:
  assumes "0 < (of_char c :: nat)" and "(of_char c :: nat) < 128"
  shows "utf8_valid (replicate n c)"
  using utf8_from_ascii [OF assms, of n "[]"] by (simp add: utf8_valid_def)

lemma utf8_length_ascii:
  assumes "(of_char c :: nat) < 128"
  shows "utf8_length (replicate n c) = n"
  using assms by (induction n) (simp_all add: utf8_length_def is_continuation_def)

lemma utf8_drop_ascii:
  assumes "(of_char c :: nat) < 128"
  shows "utf8_drop n (replicate (n + k) c) = replicate k c"
proof (induction n)
  case 0
  then show ?case using assms by (cases k) (simp_all add: is_continuation_def)
next
  case (Suc n)
  then show ?case using assms by (simp add: is_continuation_def)
qed

lemma varchar_in_too_long:
  assumes "0 < (of_char c :: nat)" and "(of_char c :: nat) < 128" and "c \<noteq> CHR '' ''"
  shows "varchar_in n (replicate (Suc n) c) = None"
proof -
  have d: "utf8_drop n (replicate (Suc n) c) = [c]"
    using utf8_drop_ascii [OF assms(2), of n 1] by simp
  show ?thesis
    using assms(3)
    by (simp add: varchar_in_def utf8_valid_ascii [OF assms(1,2)] utf8_length_ascii [OF assms(2)] d
          del: replicate_Suc)
qed

lemma utf8_from_nichi:
  "utf8_from 0 128 191 (concat (replicate n [CHR 0xE6, CHR 0x97, CHR 0xA5]) @ r) =
   utf8_from 0 128 191 r"
  by (induction n) simp_all

lemma utf8_valid_nichi: "utf8_valid nichi"
  using utf8_from_nichi [of 100 "[]"] by (simp add: utf8_valid_def nichi_def)

lemma utf8_length_concat:
  "utf8_length (concat (replicate n [CHR 0xE6, CHR 0x97, CHR 0xA5])) = n"
  by (induction n) (simp_all add: utf8_length_def is_continuation_def)

lemma utf8_length_nichi: "utf8_length nichi = 100"
  by (simp add: nichi_def utf8_length_concat)

lemma length_nichi: "length nichi = 300"
  by (simp add: nichi_def length_concat sum_list_replicate)

lemma varchar_in_fits: "utf8_valid t \<Longrightarrow> utf8_length t \<le> n \<Longrightarrow> varchar_in n t = Some t"
  by (simp add: varchar_in_def)

lemma insert_task_ok:
  assumes "utf8_valid t" and "utf8_length t \<le> 255"
    and "utf8_valid p" and "utf8_length p \<le> 50"
    and "1 \<le> next_id d" and "next_id d \<le> 2147483647"
    and "\<forall>r\<in>set (rows d). task_id r \<noteq> next_id d"
  shows "insert_task c (Some t) (Some p) d =
           (let r = \<lparr>task_id = next_id d, title = t, priority = Some p, completed = Some False,
                      created_at = c, updated_at = c\<rparr>
            in Inr ([r], d\<lparr>rows := rows d @ [r], next_id := next_id d + 1\<rparr>))"
proof -
  have free: "next_id d \<notin> set (map task_id (rows d))"
    using assms(7) by auto
  show ?thesis
    using assms(1-6) free by (simp add: insert_task_def varchar_in_fits nextval_def)
qed

lemma medium_ok: "utf8_valid ''medium'' \<and> utf8_length ''medium'' \<le> 50"
  by (simp add: utf8_valid_def utf8_length_def is_continuation_def)

lemma post_tasks_created:
  assumes "fault e 0 = None" and "field b ''title'' = JStr t" and "t \<noteq> []"
    and "utf8_valid t" and "utf8_length t \<le> 255"
    and "1 \<le> next_id (store s)" and "next_id (store s) \<le> 2147483647"
    and "\<forall>r\<in>set (rows (store s)). task_id r \<noteq> next_id (store s)"
    and "js_or (field b ''priority'') (JStr ''medium'') = JStr p"
    and "utf8_valid p" and "utf8_length p \<le> 50"
  shows "post_tasks e b s =
           (\<lparr>status = 201,
             payload = TaskBody \<lparr>task_id = next_id (store s), title = t, priority = Some p,
               completed = Some False, created_at = db_clock e, updated_at = db_clock e\<rparr>\<rparr>,
            detach (observe_db ''insert'' e
              (s\<lparr>issued := issued s @ [InsertInto],
                 store := (store s)\<lparr>rows := rows (store s) @
                   [\<lparr>task_id = next_id (store s), title = t, priority = Some p,
                     completed = Some False, created_at = db_clock e, updated_at = db_clock e\<rparr>],
                   next_id := next_id (store s) + 1\<rparr>\<rparr>)))"
  using assms(1,2,3,9)
  by (simp add: post_tasks_def pool_query_def json_def first_row_def Let_def
        insert_task_ok [OF assms(4,5,10,11,6,7,8), of "db_clock e", unfolded Let_def])

lemma long_title: "varchar_in 255 (replicate 256 CHR ''a'') = None"
  using varchar_in_too_long [of "CHR ''a''" 255] by simp

lemma long_priority: "varchar_in 50 (replicate 51 CHR ''x'') = None"
  using varchar_in_too_long [of "CHR ''x''" 50] by simp

lemma text_ok: "utf8_valid ''Write spec'' \<and> utf8_length ''Write spec'' \<le> 255 \<and>
    utf8_valid ''whenever'' \<and> utf8_length ''whenever'' \<le> 50"
  by (simp add: utf8_valid_def utf8_length_def is_continuation_def)

lemma write_spec_ok:
  "varchar_in 255 ''Write spec'' = Some ''Write spec'' \<and> varchar_in 50 ''medium'' = Some ''medium''"
  using text_ok medium_ok by (simp add: varchar_in_fits)

text \<open>
  \<^bold>\<open>C4.\<close> As amended: let the storage call reach the database, let the sequence of the id
  column stand at a number between 1 and \<open>2\<^sup>3\<^sup>1 - 1\<close> that no stored task has as its id, and
  let the title be a non-empty, well-formed text (UTF-8 without a zero character) of at most
  255 characters. Then a \<^verbatim>\<open>POST /api/tasks\<close> without a \<^verbatim>\<open>priority\<close> field is answered 201
  with the created task, which is also the row appended to the table: it has that number
  as id, the given title, priority \<^verbatim>\<open>medium\<close> and \<open>completed = false\<close>. With a priority
  given as a non-empty, well-formed text of at most 50 characters the same holds with
  that priority stored as it is, whatever it says.
\<close>

theorem post_creates_task:
  assumes "fault e 0 = None" and "field b ''title'' = JStr t" and "t \<noteq> []"
    and "utf8_valid t" and "utf8_length t \<le> 255"
    and "1 \<le> next_id (store s)" and "next_id (store s) \<le> 2147483647"
    and "\<forall>r\<in>set (rows (store s)). task_id r \<noteq> next_id (store s)"
  shows "(b ''priority'' = None \<longrightarrow>
            fst (post_tasks e b s) =
              \<lparr>status = 201,
               payload = TaskBody \<lparr>task_id = next_id (store s), title = t,
                  priority = Some ''medium'', completed = Some False,
                  created_at = db_clock e, updated_at = db_clock e\<rparr>\<rparr> \<and>
            rows (store (snd (post_tasks e b s))) =
              rows (store s) @ [\<lparr>task_id = next_id (store s), title = t,
                  priority = Some ''medium'', completed = Some False,
                  created_at = db_clock e, updated_at = db_clock e\<rparr>]) \<and>
         (\<forall>p. b ''priority'' = Some (JStr p) \<and> p \<noteq> [] \<and> utf8_valid p \<and> utf8_length p \<le> 50 \<longrightarrow>
            fst (post_tasks e b s) =
              \<lparr>status = 201,
               payload = TaskBody \<lparr>task_id = next_id (store s), title = t,
                  priority = Some p, completed = Some False,
                  created_at = db_clock e, updated_at = db_clock e\<rparr>\<rparr> \<and>
            rows (store (snd (post_tasks e b s))) =
              rows (store s) @ [\<lparr>task_id = next_id (store s), title = t,
                  priority = Some p, completed = Some False,
                  created_at = db_clock e, updated_at = db_clock e\<rparr>])"
proof (intro conjI allI impI)
  assume "b ''priority'' = None"
  then have pr: "js_or (field b ''priority'') (JStr ''medium'') = JStr ''medium''"
    by (simp add: field_def js_or_def)
  note run = post_tasks_created [OF assms pr conjunct1 [OF medium_ok] conjunct2 [OF medium_ok]]
  show "fst (post_tasks e b s) =
              \<lparr>status = 201,
               payload = TaskBody \<lparr>task_id = next_id (store s), title = t,
                  priority = Some ''medium'', completed = Some False,
                  created_at = db_clock e, updated_at = db_clock e\<rparr>\<rparr>"
    by (simp add: run)
  show "rows (store (snd (post_tasks e b s))) =
              rows (store s) @ [\<lparr>task_id = next_id (store s), title = t,
                  priority = Some ''medium'', completed = Some False,
                  created_at = db_clock e, updated_at = db_clock e\<rparr>]"
    by (simp add: run observe_db_def detach_def)
next
  fix p
  assume h: "b ''priority'' = Some (JStr p) \<and> p \<noteq> [] \<and> utf8_valid p \<and> utf8_length p \<le> 50"
  then have pr: "js_or (field b ''priority'') (JStr ''medium'') = JStr p"
    by (simp add: field_def js_or_def)
  from h have v: "utf8_valid p" and l: "utf8_length p \<le> 50" by simp_all
  note run = post_tasks_created [OF assms pr v l]
  show "fst (post_tasks e b s) =
              \<lparr>status = 201,
               payload = TaskBody \<lparr>task_id = next_id (store s), title = t,
                  priority = Some p, completed = Some False,
                  created_at = db_clock e, updated_at = db_clock e\<rparr>\<rparr>"
    by (simp add: run)
  show "rows (store (snd (post_tasks e b s))) =
              rows (store s) @ [\<lparr>task_id = next_id (store s), title = t,
                  priority = Some p, completed = Some False,
                  created_at = db_clock e, updated_at = db_clock e\<rparr>]"
    by (simp add: run observe_db_def detach_def)
qed

theorem post_creates_task_witness:
  "field [''title'' \<mapsto> JStr ''Write spec''] ''title'' = JStr ''Write spec'' \<and>
   fst (post_tasks reachable [''title'' \<mapsto> JStr ''Write spec''] (init empty_db)) =
     \<lparr>status = 201,
      payload = TaskBody \<lparr>task_id = 1, title = ''Write spec'', priority = Some ''medium'',
        completed = Some False, created_at = 100, updated_at = 100\<rparr>\<rparr> \<and>
   rows (store (snd (post_tasks reachable [''title'' \<mapsto> JStr ''Write spec''] (init empty_db)))) =
     [\<lparr>task_id = 1, title = ''Write spec'', priority = Some ''medium'',
        completed = Some False, created_at = 100, updated_at = 100\<rparr>] \<and>
   fst (post_tasks reachable [''title'' \<mapsto> JStr ''Write spec'', ''priority'' \<mapsto> JStr ''whenever'']
          (init empty_db)) =
     \<lparr>status = 201,
      payload = TaskBody \<lparr>task_id = 1, title = ''Write spec'', priority = Some ''whenever'',
        completed = Some False, created_at = 100, updated_at = 100\<rparr>\<rparr> \<and>
   length nichi = 300 \<and> utf8_length nichi = 100 \<and>
   fst (post_tasks reachable [''title'' \<mapsto> JStr nichi] (init two_tasks)) =
     \<lparr>status = 201,
      payload = TaskBody \<lparr>task_id = 3, title = nichi, priority = Some ''medium'',
        completed = Some False, created_at = 100, updated_at = 100\<rparr>\<rparr>"
proof -
  have up: "fault reachable 0 = None" by (simp add: reachable_def)
  have t1: "field [''title'' \<mapsto> JStr ''Write spec''] ''title'' = JStr ''Write spec''"
    by (simp add: field_def)
  have t2: "field [''title'' \<mapsto> JStr ''Write spec'', ''priority'' \<mapsto> JStr ''whenever''] ''title'' =
      JStr ''Write spec''"
    by (simp add: field_def)
  have t3: "field [''title'' \<mapsto> JStr nichi] ''title'' = JStr nichi"
    by (simp add: field_def)
  have ne: "''Write spec'' \<noteq> []" "nichi \<noteq> []"
    using length_nichi by auto
  have seq0: "1 \<le> next_id (store (init empty_db))" "next_id (store (init empty_db)) \<le> 2147483647"
      "\<forall>r\<in>set (rows (store (init empty_db))). task_id r \<noteq> next_id (store (init empty_db))"
    by (simp_all add: init_def empty_db_def)
  have seq2: "1 \<le> next_id (store (init two_tasks))" "next_id (store (init two_tasks)) \<le> 2147483647"
      "\<forall>r\<in>set (rows (store (init two_tasks))). task_id r \<noteq> next_id (store (init two_tasks))"
    by (simp_all add: init_def two_tasks_def)
  have v: "utf8_valid ''Write spec''" "utf8_length ''Write spec'' \<le> 255"
    using text_ok by simp_all
  have n: "utf8_valid nichi" "utf8_length nichi \<le> 255"
    by (simp_all add: utf8_valid_nichi utf8_length_nichi)
  have w: "utf8_valid ''whenever'' \<and> utf8_length ''whenever'' \<le> 50"
    using text_ok by simp
  note a = post_creates_task [OF up t1 ne(1) v seq0]
  note b = post_creates_task [OF up t2 ne(1) v seq0]
  note c = post_creates_task [OF up t3 ne(2) n seq2]
  show ?thesis
    using t1 a b c w length_nichi utf8_length_nichi
    by (simp add: sample_defs)
qed

text \<open>
  The claim as stated, for every non-empty title, fails: each of a title of 256
  letters, a title or a priority with a zero character, a priority of 51 letters, a
  database that cannot be reached, a sequence that is used up and a sequence standing at
  the id of a stored row is answered 500; for the long title no row is created.
\<close>

theorem post_creates_task_counterexample:
  "fst (post_tasks reachable [''title'' \<mapsto> JStr (replicate 256 CHR ''a'')] (init empty_db)) =
     \<lparr>status = 500, payload = ErrorBody ''Internal server error''\<rparr> \<and>
   rows (store (snd (post_tasks reachable [''title'' \<mapsto> JStr (replicate 256 CHR ''a'')]
                      (init empty_db)))) = [] \<and>
   fst (post_tasks reachable [''title'' \<mapsto> JStr [CHR ''a'', CHR 0x00, CHR ''b'']] (init empty_db)) =
     \<lparr>status = 500, payload = ErrorBody ''Internal server error''\<rparr> \<and>
   fst (post_tasks reachable
          [''title'' \<mapsto> JStr ''Write spec'', ''priority'' \<mapsto> JStr (replicate 51 CHR ''x'')]
          (init empty_db)) =
     \<lparr>status = 500, payload = ErrorBody ''Internal server error''\<rparr> \<and>
   fst (post_tasks reachable
          [''title'' \<mapsto> JStr ''Write spec'', ''priority'' \<mapsto> JStr [CHR ''a'', CHR 0x00, CHR ''b'']]
          (init empty_db)) =
     \<lparr>status = 500, payload = ErrorBody ''Internal server error''\<rparr> \<and>
   fst (post_tasks unreachable [''title'' \<mapsto> JStr ''Write spec''] (init empty_db)) =
     \<lparr>status = 500, payload = ErrorBody ''Internal server error''\<rparr> \<and>
   fst (post_tasks reachable [''title'' \<mapsto> JStr ''Write spec''] (init exhausted_db)) =
     \<lparr>status = 500, payload = ErrorBody ''Internal server error''\<rparr> \<and>
   fst (post_tasks reachable [''title'' \<mapsto> JStr ''Write spec''] (init clashing_db)) =
     \<lparr>status = 500, payload = ErrorBody ''Internal server error''\<rparr>"
proof -
  have nul: "varchar_in n [CHR ''a'', CHR 0x00, CHR ''b''] = None" for n
    by (simp add: varchar_in_def utf8_valid_def)
  have ok: "varchar_in 255 ''Write spec'' = Some ''Write spec''"
    using text_ok by (simp add: varchar_in_fits)
  have med: "varchar_in 50 ''medium'' = Some ''medium''"
    using medium_ok by (simp add: varchar_in_fits)
  have ne: "replicate 256 CHR ''a'' \<noteq> []" "replicate 51 CHR ''x'' \<noteq> []"
    by simp_all
  show ?thesis
    using ne
    by (simp add: post_tasks_def insert_task_def nextval_def long_title long_priority nul ok med
          field_def js_or_def trace_defs sample_defs exhausted_db_def clashing_db_def)
qed

section \<open>Request metrics\<close>

lemma router_kept: "kept s (snd (router e rq s))"
proof (cases "matched rq")
  case None
  then show ?thesis by (simp add: router_def kept_def)
next
  case (Some h)
  show ?thesis
  proof (cases h)
    case GetMetrics
    with Some show ?thesis by (simp add: router_def get_metrics_def kept_def)
  next
    case GetHealth
    with Some show ?thesis
      by (simp add: router_def get_health_def kept_def trace_defs
            split: option.splits sum.splits prod.splits)
  next
    case GetApiHealth
    with Some show ?thesis by (simp add: router_def get_api_health_def kept_def)
  next
    case GetTasks
    with Some show ?thesis
      by (simp add: router_def get_tasks_def kept_def trace_defs
            split: option.splits sum.splits prod.splits)
  next
    case PostTasks
    with Some show ?thesis
      by (simp add: router_def post_tasks_def kept_def trace_defs
            split: option.splits sum.splits prod.splits)
  next
    case PutTask
    with Some show ?thesis
      by (simp add: router_def put_task_def kept_def trace_defs
            split: option.splits sum.splits prod.splits)
  next
    case DeleteTask
    with Some show ?thesis
      by (simp add: router_def delete_task_handler_def kept_def trace_defs
            split: option.splits sum.splits prod.splits)
  next
    case GetStats
    with Some show ?thesis
      by (simp add: router_def get_stats_def kept_def trace_defs count_total_def
            count_completed_def split: option.splits sum.splits prod.splits)
  qed
qed

lemma app_passed:
  assumes "req_method rq \<noteq> ''OPTIONS''" and "body_error rq = None"
  shows "app e rq s = (fst (router e rq s), on_finish e rq (fst (router e rq s)) (snd (router e rq s)))"
  using assms
  by (simp add: app_def cors_def bodyParser_json_def metrics_middleware_def split: prod.splits)

lemma stats_routed:
  assumes "fault e 0 = None" and "fault e 1 = None"
  shows "fst (router e stats_request (init two_tasks)) =
           \<lparr>status = 200, payload = StatsBody (Some 2) (Some 1) (Some 1)\<rparr>"
  using assms
  by (simp add: router_def stats_request_def get_stats_def count_total_def count_completed_def
        parseInt_show_int [of 2, simplified] parseInt_show_int [of 1, simplified]
        js_minus_def trace_defs init_def two_tasks_def)




section \<open>Storage timing\<close>

lemma get_tasks_timed:
  "issued (snd (get_tasks e s)) = issued s @ [SelectTasks] \<and>
   (fault e 0 = None \<longrightarrow>
      dbQueryDuration (snd (get_tasks e s)) = dbQueryDuration s @ [(''select'', query_ms e)]) \<and>
   (fault e 0 \<noteq> None \<longrightarrow> dbQueryDuration (snd (get_tasks e s)) = dbQueryDuration s)"
  by (cases "fault e 0") (simp_all add: get_tasks_def select_tasks_def trace_defs)

lemma post_tasks_timed:
  "(\<not> truthy (field b ''title'') \<longrightarrow>
      issued (snd (post_tasks e b s)) = issued s \<and>
      dbQueryDuration (snd (post_tasks e b s)) = dbQueryDuration s) \<and>
   (truthy (field b ''title'') \<longrightarrow>
      (\<forall>rs. fst (pool_query e 0 InsertInto
                  (insert_task (db_clock e) (prepareValue (field b ''title''))
                     (prepareValue (js_or (field b ''priority'') (JStr ''medium'')))) s) = Inr rs \<longrightarrow>
         issued (snd (post_tasks e b s)) = issued s @ [InsertInto, CountTotal] \<and>
         dbQueryDuration (snd (post_tasks e b s)) = dbQueryDuration s @ [(''insert'', query_ms e)]) \<and>
      (\<forall>m. fst (pool_query e 0 InsertInto
                  (insert_task (db_clock e) (prepareValue (field b ''title''))
                     (prepareValue (js_or (field b ''priority'') (JStr ''medium'')))) s) = Inl m \<longrightarrow>
         issued (snd (post_tasks e b s)) = issued s @ [InsertInto] \<and>
         dbQueryDuration (snd (post_tasks e b s)) = dbQueryDuration s))"
  by (cases "fault e 0")
     (auto simp: post_tasks_def trace_defs split: sum.splits prod.splits)

lemma put_task_timed:
  "(\<forall>rs. fst (pool_query e 0 UpdateSet
               (update_task (db_clock e) (prepareValue (field b ''completed''))
                  (prepareValue (JStr ident))) s) = Inr rs \<longrightarrow>
      issued (snd (put_task e ident b s)) =
        issued s @ (if rs = [] then [UpdateSet] else [UpdateSet, CountTotal]) \<and>
      dbQueryDuration (snd (put_task e ident b s)) = dbQueryDuration s @ [(''update'', query_ms e)]) \<and>
   (\<forall>m. fst (pool_query e 0 UpdateSet
               (update_task (db_clock e) (prepareValue (field b ''completed''))
                  (prepareValue (JStr ident))) s) = Inl m \<longrightarrow>
      issued (snd (put_task e ident b s)) = issued s @ [UpdateSet] \<and>
      dbQueryDuration (snd (put_task e ident b s)) = dbQueryDuration s)"
  by (cases "fault e 0")
     (auto simp: put_task_def trace_defs split: sum.splits prod.splits)

lemma delete_task_timed:
  "(\<forall>rs. fst (pool_query e 0 DeleteFrom (delete_task (prepareValue (JStr ident))) s) = Inr rs \<longrightarrow>
      issued (snd (delete_task_handler e ident s)) =
        issued s @ (if rs = [] then [DeleteFrom] else [DeleteFrom, CountTotal]) \<and>
      dbQueryDuration (snd (delete_task_handler e ident s)) =
        dbQueryDuration s @ [(''delete'', query_ms e)]) \<and>
   (\<forall>m. fst (pool_query e 0 DeleteFrom (delete_task (prepareValue (JStr ident))) s) = Inl m \<longrightarrow>
      issued (snd (delete_task_handler e ident s)) = issued s @ [DeleteFrom] \<and>
      dbQueryDuration (snd (delete_task_handler e ident s)) = dbQueryDuration s)"
  by (cases "fault e 0")
     (auto simp: delete_task_handler_def trace_defs split: sum.splits prod.splits)

lemma get_stats_timed:
  "(fault e 0 = None \<and> fault e 1 = None \<longrightarrow>
      issued (snd (get_stats e s)) = issued s @ [CountTotal, CountCompleted] \<and>
      dbQueryDuration (snd (get_stats e s)) = dbQueryDuration s @ [(''select'', query_ms e)]) \<and>
   (fault e 0 \<noteq> None \<longrightarrow>
      issued (snd (get_stats e s)) = issued s @ [CountTotal] \<and>
      dbQueryDuration (snd (get_stats e s)) = dbQueryDuration s) \<and>
   (fault e 0 = None \<and> fault e 1 \<noteq> None \<longrightarrow>
      issued (snd (get_stats e s)) = issued s @ [CountTotal, CountCompleted] \<and>
      dbQueryDuration (snd (get_stats e s)) = dbQueryDuration s)"
  by (cases "fault e 0"; cases "fault e 1")
     (simp_all add: get_stats_def count_total_def count_completed_def trace_defs)

lemma int4_two: "int4_in ''2'' = Some 2" and int4_one: "int4_in ''1'' = Some 1"
  and int4_nine: "int4_in ''9'' = Some 9"
  by (simp_all add: input_defs)

lemma bool_true: "bool_in ''true'' = Some True"
  by (simp add: input_defs)

lemma insert_runs:
  "fst (pool_query reachable 0 InsertInto
          (insert_task (db_clock reachable)
             (prepareValue (field [''title'' \<mapsto> JStr ''Write spec''] ''title''))
             (prepareValue (js_or (field [''title'' \<mapsto> JStr ''Write spec''] ''priority'')
                (JStr ''medium'')))) (init two_tasks)) =
   Inr [\<lparr>task_id = 3, title = ''Write spec'', priority = Some ''medium'', completed = Some False,
          created_at = 100, updated_at = 100\<rparr>]"
  by (simp add: pool_query_def insert_task_def nextval_def write_spec_ok field_def js_or_def
        Let_def sample_defs)

lemma update_runs:
  "fst (pool_query reachable 0 UpdateSet
          (update_task (db_clock reachable)
             (prepareValue (field [''completed'' \<mapsto> JBool True] ''completed''))
             (prepareValue (JStr ''2''))) (init two_tasks)) =
   Inr [\<lparr>task_id = 2, title = ''Review'', priority = Some ''high'', completed = Some True,
          created_at = 30, updated_at = 100\<rparr>]"
  by (simp add: pool_query_def update_task_def int4_two bool_true field_def Let_def sample_defs)

lemma update_misses:
  "fst (pool_query reachable 0 UpdateSet
          (update_task (db_clock reachable)
             (prepareValue (field [''completed'' \<mapsto> JBool True] ''completed''))
             (prepareValue (JStr ''9''))) (init two_tasks)) = Inr []"
  by (simp add: pool_query_def update_task_def int4_nine bool_true field_def Let_def sample_defs)

lemma delete_runs:
  "fst (pool_query reachable 0 DeleteFrom (delete_task (prepareValue (JStr ''1'')))
          (init two_tasks)) =
   Inr [\<lparr>task_id = 1, title = ''Write spec'', priority = Some ''medium'', completed = Some True,
          created_at = 10, updated_at = 20\<rparr>]"
  by (simp add: pool_query_def delete_task_def int4_one Let_def sample_defs)

text \<open>
  \<^bold>\<open>C7.\<close> As amended: in each task or statistics request handler the elapsed time is
  observed exactly once into \<^verbatim>\<open>db_query_duration_seconds\<close>, labelled \<^verbatim>\<open>select\<close>,
  \<^verbatim>\<open>insert\<close>, \<^verbatim>\<open>update\<close> or \<^verbatim>\<open>delete\<close> after the handler, when every storage call that
  the handler awaits succeeds (its one \<^verbatim>\<open>SELECT\<close>, \<^verbatim>\<open>INSERT\<close>, \<^verbatim>\<open>UPDATE\<close> or \<^verbatim>\<open>DELETE\<close>,
  or the two count queries of \<^verbatim>\<open>/api/stats\<close>, which share one observation); when an
  awaited call fails, nothing is observed, also when the first count query of
  \<^verbatim>\<open>/api/stats\<close> had succeeded. The count query that a create, or an update or delete
  that found its row, issues through the un-awaited \<^verbatim>\<open>updateTaskMetrics()\<close> is made
  inside the handler without an observation of its own.
\<close>

theorem handler_queries_timed:
  "issued (snd (get_tasks e s)) = issued s @ [SelectTasks] \<and>
   (fault e 0 = None \<longrightarrow>
      dbQueryDuration (snd (get_tasks e s)) = dbQueryDuration s @ [(''select'', query_ms e)]) \<and>
   (fault e 0 \<noteq> None \<longrightarrow> dbQueryDuration (snd (get_tasks e s)) = dbQueryDuration s) \<and>
   (truthy (field b ''title'') \<longrightarrow>
      (\<forall>rs. fst (pool_query e 0 InsertInto
                  (insert_task (db_clock e) (prepareValue (field b ''title''))
                     (prepareValue (js_or (field b ''priority'') (JStr ''medium'')))) s) = Inr rs \<longrightarrow>
         issued (snd (post_tasks e b s)) = issued s @ [InsertInto, CountTotal] \<and>
         dbQueryDuration (snd (post_tasks e b s)) = dbQueryDuration s @ [(''insert'', query_ms e)]) \<and>
      (\<forall>m. fst (pool_query e 0 InsertInto
                  (insert_task (db_clock e) (prepareValue (field b ''title''))
                     (prepareValue (js_or (field b ''priority'') (JStr ''medium'')))) s) = Inl m \<longrightarrow>
         issued (snd (post_tasks e b s)) = issued s @ [InsertInto] \<and>
         dbQueryDuration (snd (post_tasks e b s)) = dbQueryDuration s)) \<and>
   (\<forall>rs. fst (pool_query e 0 UpdateSet
               (update_task (db_clock e) (prepareValue (field b ''completed''))
                  (prepareValue (JStr ident))) s) = Inr rs \<longrightarrow>
      issued (snd (put_task e ident b s)) =
        issued s @ (if rs = [] then [UpdateSet] else [UpdateSet, CountTotal]) \<and>
      dbQueryDuration (snd (put_task e ident b s)) = dbQueryDuration s @ [(''update'', query_ms e)]) \<and>
   (\<forall>m. fst (pool_query e 0 UpdateSet
               (update_task (db_clock e) (prepareValue (field b ''completed''))
                  (prepareValue (JStr ident))) s) = Inl m \<longrightarrow>
      issued (snd (put_task e ident b s)) = issued s @ [UpdateSet] \<and>
      dbQueryDuration (snd (put_task e ident b s)) = dbQueryDuration s) \<and>
   (\<forall>rs. fst (pool_query e 0 DeleteFrom (delete_task (prepareValue (JStr ident))) s) = Inr rs \<longrightarrow>
      issued (snd (delete_task_handler e ident s)) =
        issued s @ (if rs = [] then [DeleteFrom] else [DeleteFrom, CountTotal]) \<and>
      dbQueryDuration (snd (delete_task_handler e ident s)) =
        dbQueryDuration s @ [(''delete'', query_ms e)]) \<and>
   (\<forall>m. fst (pool_query e 0 DeleteFrom (delete_task (prepareValue (JStr ident))) s) = Inl m \<longrightarrow>
      issued (snd (delete_task_handler e ident s)) = issued s @ [DeleteFrom] \<and>
      dbQueryDuration (snd (delete_task_handler e ident s)) = dbQueryDuration s) \<and>
   (fault e 0 = None \<and> fault e 1 = None \<longrightarrow>
      issued (snd (get_stats e s)) = issued s @ [CountTotal, CountCompleted] \<and>
      dbQueryDuration (snd (get_stats e s)) = dbQueryDuration s @ [(''select'', query_ms e)]) \<and>
   (fault e 0 \<noteq> None \<longrightarrow>
      issued (snd (get_stats e s)) = issued s @ [CountTotal] \<and>
      dbQueryDuration (snd (get_stats e s)) = dbQueryDuration s) \<and>
   (fault e 0 = None \<and> fault e 1 \<noteq> None \<longrightarrow>
      issued (snd (get_stats e s)) = issued s @ [CountTotal, CountCompleted] \<and>
      dbQueryDuration (snd (get_stats e s)) = dbQueryDuration s)"
  using get_tasks_timed [of e s] post_tasks_timed [of b e s] put_task_timed [of e b ident s]
    delete_task_timed [of e ident s] get_stats_timed [of e s]
  by blast

theorem handler_queries_timed_witness:
  "issued (snd (get_tasks reachable (init two_tasks))) = [SelectTasks] \<and>
   dbQueryDuration (snd (get_tasks reachable (init two_tasks))) = [(''select'', 3)] \<and>
   issued (snd (post_tasks reachable [''title'' \<mapsto> JStr ''Write spec''] (init two_tasks))) =
     [InsertInto, CountTotal] \<and>
   dbQueryDuration (snd (post_tasks reachable [''title'' \<mapsto> JStr ''Write spec''] (init two_tasks))) =
     [(''insert'', 3)] \<and>
   issued (snd (put_task reachable ''9'' [''completed'' \<mapsto> JBool True] (init two_tasks))) =
     [UpdateSet] \<and>
   dbQueryDuration (snd (put_task reachable ''9'' [''completed'' \<mapsto> JBool True] (init two_tasks))) =
     [(''update'', 3)] \<and>
   issued (snd (delete_task_handler reachable ''1'' (init two_tasks))) = [DeleteFrom, CountTotal] \<and>
   dbQueryDuration (snd (delete_task_handler reachable ''1'' (init two_tasks))) = [(''delete'', 3)] \<and>
   issued (snd (get_stats reachable (init two_tasks))) = [CountTotal, CountCompleted] \<and>
   dbQueryDuration (snd (get_stats reachable (init two_tasks))) = [(''select'', 3)] \<and>
   issued (snd (get_stats flaky (init two_tasks))) = [CountTotal, CountCompleted] \<and>
   dbQueryDuration (snd (get_stats flaky (init two_tasks))) = [] \<and>
   issued (snd (get_tasks unreachable (init two_tasks))) = [SelectTasks] \<and>
   dbQueryDuration (snd (get_tasks unreachable (init two_tasks))) = []"
proof -
  have up: "fault reachable 0 = None \<and> fault reachable 1 = None"
    by (simp add: reachable_def)
  have down: "fault unreachable 0 \<noteq> None"
    by (simp add: unreachable_def)
  have half: "fault flaky 0 = None \<and> fault flaky 1 \<noteq> None"
    by (simp add: flaky_def)
  have title: "truthy (field [''title'' \<mapsto> JStr ''Write spec''] ''title'')"
    by (simp add: field_def)
  have none: "[] = ([] :: task list)" ..
  note a = handler_queries_timed
    [of reachable "init two_tasks" "[''title'' \<mapsto> JStr ''Write spec'']" "''1''"]
  note b = handler_queries_timed
    [of reachable "init two_tasks" "[''completed'' \<mapsto> JBool True]" "''9''"]
  note c = handler_queries_timed [of unreachable "init two_tasks" Map.empty "''1''"]
  note d = handler_queries_timed [of flaky "init two_tasks" Map.empty "''1''"]
  have g: "issued (snd (get_tasks reachable (init two_tasks))) = issued (init two_tasks) @ [SelectTasks] \<and>
      dbQueryDuration (snd (get_tasks reachable (init two_tasks))) =
        dbQueryDuration (init two_tasks) @ [(''select'', query_ms reachable)]"
    using a up by simp
  have p: "issued (snd (post_tasks reachable [''title'' \<mapsto> JStr ''Write spec''] (init two_tasks))) =
        issued (init two_tasks) @ [InsertInto, CountTotal] \<and>
      dbQueryDuration (snd (post_tasks reachable [''title'' \<mapsto> JStr ''Write spec''] (init two_tasks))) =
        dbQueryDuration (init two_tasks) @ [(''insert'', query_ms reachable)]"
    using a title insert_runs by simp
  have u: "issued (snd (put_task reachable ''9'' [''completed'' \<mapsto> JBool True] (init two_tasks))) =
        issued (init two_tasks) @ (if [] = ([] :: task list) then [UpdateSet] else [UpdateSet, CountTotal]) \<and>
      dbQueryDuration (snd (put_task reachable ''9'' [''completed'' \<mapsto> JBool True] (init two_tasks))) =
        dbQueryDuration (init two_tasks) @ [(''update'', query_ms reachable)]"
    using b update_misses by simp
  have x: "issued (snd (delete_task_handler reachable ''1'' (init two_tasks))) =
        issued (init two_tasks) @ [DeleteFrom, CountTotal] \<and>
      dbQueryDuration (snd (delete_task_handler reachable ''1'' (init two_tasks))) =
        dbQueryDuration (init two_tasks) @ [(''delete'', query_ms reachable)]"
    using a delete_runs by simp
  have t: "issued (snd (get_stats reachable (init two_tasks))) =
        issued (init two_tasks) @ [CountTotal, CountCompleted] \<and>
      dbQueryDuration (snd (get_stats reachable (init two_tasks))) =
        dbQueryDuration (init two_tasks) @ [(''select'', query_ms reachable)]"
    using a up by simp
  have f: "issued (snd (get_stats flaky (init two_tasks))) =
        issued (init two_tasks) @ [CountTotal, CountCompleted] \<and>
      dbQueryDuration (snd (get_stats flaky (init two_tasks))) = dbQueryDuration (init two_tasks)"
    using d half by simp
  have n: "issued (snd (get_tasks unreachable (init two_tasks))) =
        issued (init two_tasks) @ [SelectTasks] \<and>
      dbQueryDuration (snd (get_tasks unreachable (init two_tasks))) = dbQueryDuration (init two_tasks)"
    using c down by simp
  show ?thesis
    using g p u x t f n by (simp add: init_def reachable_def)
qed

text \<open>
  The claim as stated, for every storage call, fails: a successful create makes two
  storage calls and one observation, the count queries of \<^verbatim>\<open>updateTaskMetrics\<close> and the
  \<^verbatim>\<open>SELECT 1\<close> of \<^verbatim>\<open>/health\<close> are made without any observation, and so are a query that
  fails and a count query that succeeds before the next one fails.
\<close>

theorem handler_queries_timed_counterexample:
  "issued (snd (post_tasks reachable [''title'' \<mapsto> JStr ''Write spec''] (init two_tasks))) =
     [InsertInto, CountTotal] \<and>
   dbQueryDuration (snd (post_tasks reachable [''title'' \<mapsto> JStr ''Write spec''] (init two_tasks))) =
     [(''insert'', 3)] \<and>
   issued (updateTaskMetrics reachable (init two_tasks)) = [CountTotal, CountCompleted] \<and>
   dbQueryDuration (updateTaskMetrics reachable (init two_tasks)) = [] \<and>
   issued (snd (get_health reachable (init two_tasks))) = [SelectOne] \<and>
   dbQueryDuration (snd (get_health reachable (init two_tasks))) = [] \<and>
   issued (snd (get_tasks unreachable (init two_tasks))) = [SelectTasks] \<and>
   dbQueryDuration (snd (get_tasks unreachable (init two_tasks))) = [] \<and>
   issued (snd (get_stats flaky (init two_tasks))) = [CountTotal, CountCompleted] \<and>
   dbQueryDuration (snd (get_stats flaky (init two_tasks))) = []"
  by (simp add: post_tasks_def insert_task_def nextval_def write_spec_ok field_def js_or_def
        updateTaskMetrics_def get_health_def get_tasks_def get_stats_def count_total_def
        count_completed_def select_one_def trace_defs sample_defs flaky_def)

section \<open>Gauge refresh\<close>

lemma pool_query_settle:
  "pool_query e k q run s = settle e k run (s\<lparr>issued := issued s @ [q]\<rparr>)"
  by (simp add: pool_query_def settle_def Let_def)

lemma updateTaskMetrics_split:
  "updateTaskMetrics e s = updateTaskMetrics_resumed e (s\<lparr>issued := issued s @ [CountTotal]\<rparr>)"
  by (simp add: updateTaskMetrics_def updateTaskMetrics_resumed_def pool_query_settle)

lemma detach_resumed:
  "updateTaskMetrics_resumed e ((detach s)\<lparr>detached := detached (detach s) - 1\<rparr>) =
   updateTaskMetrics e s"
  by (simp add: updateTaskMetrics_split detach_def)

lemma refresh_counts:
  assumes "fault e 0 = None" and "fault e 1 = None"
  shows "tasksTotal (updateTaskMetrics_resumed e s) = Some (int (length (rows (store s)))) \<and>
         tasksCompleted (updateTaskMetrics_resumed e s) =
           Some (int (length (filter (\<lambda>r. completed r = Some True) (rows (store s))))) \<and>
         console (updateTaskMetrics_resumed e s) = console s \<and>
         detached (updateTaskMetrics_resumed e s) = detached s"
  using assms
  by (simp add: updateTaskMetrics_resumed_def settle_def count_total_def count_completed_def
        trace_defs parseInt_show_int)

lemma refresh_fails:
  assumes "fault e 0 \<noteq> None \<or> fault e 1 \<noteq> None"
  shows "tasksTotal (updateTaskMetrics_resumed e s) = tasksTotal s \<and>
         tasksCompleted (updateTaskMetrics_resumed e s) = tasksCompleted s \<and>
         (\<exists>m. console (updateTaskMetrics_resumed e s) =
                console s @ [(''Error updating task metrics:'', m)]) \<and>
         detached (updateTaskMetrics_resumed e s) = detached s"
  using assms
  by (cases "fault e 0"; cases "fault e 1")
     (simp_all add: updateTaskMetrics_resumed_def settle_def count_total_def count_completed_def
        trace_defs)

lemma refresh_intervals: "intervals (updateTaskMetrics_resumed e s) = intervals s"
  by (cases "fault e 0"; cases "fault e 1")
     (simp_all add: updateTaskMetrics_resumed_def settle_def count_total_def count_completed_def
        trace_defs)

lemma app_intervals: "intervals (snd (app e rq s)) = intervals s"
proof (cases "req_method rq \<noteq> ''OPTIONS'' \<and> body_error rq = None")
  case True
  then show ?thesis
    using router_kept [of s e rq]
    by (simp add: app_passed on_finish_def Let_def kept_def split: option.splits)
next
  case False
  then show ?thesis
    by (auto simp: app_def cors_def bodyParser_json_def split: option.splits)
qed

lemma step_intervals: "intervals (snd (step e ev s)) = intervals s"
proof (cases ev)
  case (Request rq)
  then show ?thesis
    using app_intervals [of e rq s] by (cases "app e rq s") (simp add: step_def)
next
  case (TimerFires p)
  then show ?thesis by (simp add: step_def updateTaskMetrics_split refresh_intervals)
next
  case Resume
  then show ?thesis by (simp add: step_def refresh_intervals)
qed

lemma post_tasks_detaches:
  "truthy (field b ''title'') \<longrightarrow>
     (\<forall>rs. fst (pool_query e 0 InsertInto
                 (insert_task (db_clock e) (prepareValue (field b ''title''))
                    (prepareValue (js_or (field b ''priority'') (JStr ''medium'')))) s) = Inr rs \<longrightarrow>
        status (fst (post_tasks e b s)) = 201 \<and>
        snd (post_tasks e b s) =
          detach (observe_db ''insert'' e
            (snd (pool_query e 0 InsertInto
               (insert_task (db_clock e) (prepareValue (field b ''title''))
                  (prepareValue (js_or (field b ''priority'') (JStr ''medium'')))) s))) \<and>
        detached (snd (post_tasks e b s)) = detached s + 1 \<and>
        tasksTotal (snd (post_tasks e b s)) = tasksTotal s \<and>
        tasksCompleted (snd (post_tasks e b s)) = tasksCompleted s)"
  by (cases "fault e 0")
     (auto simp: post_tasks_def trace_defs split: sum.splits prod.splits)

lemma put_task_detaches:
  "\<forall>rs. fst (pool_query e 0 UpdateSet
              (update_task (db_clock e) (prepareValue (field b ''completed''))
                 (prepareValue (JStr ident))) s) = Inr rs \<and> rs \<noteq> [] \<longrightarrow>
     status (fst (put_task e ident b s)) = 200 \<and>
     snd (put_task e ident b s) =
       detach (observe_db ''update'' e
         (snd (pool_query e 0 UpdateSet
            (update_task (db_clock e) (prepareValue (field b ''completed''))
               (prepareValue (JStr ident))) s))) \<and>
     detached (snd (put_task e ident b s)) = detached s + 1 \<and>
     tasksTotal (snd (put_task e ident b s)) = tasksTotal s \<and>
     tasksCompleted (snd (put_task e ident b s)) = tasksCompleted s"
  by (cases "fault e 0")
     (auto simp: put_task_def trace_defs split: sum.splits prod.splits)

lemma delete_task_detaches:
  "\<forall>rs. fst (pool_query e 0 DeleteFrom (delete_task (prepareValue (JStr ident))) s) = Inr rs \<and>
        rs \<noteq> [] \<longrightarrow>
     status (fst (delete_task_handler e ident s)) = 200 \<and>
     snd (delete_task_handler e ident s) =
       detach (observe_db ''delete'' e
         (snd (pool_query e 0 DeleteFrom (delete_task (prepareValue (JStr ident))) s))) \<and>
     detached (snd (delete_task_handler e ident s)) = detached s + 1 \<and>
     tasksTotal (snd (delete_task_handler e ident s)) = tasksTotal s \<and>
     tasksCompleted (snd (delete_task_handler e ident s)) = tasksCompleted s"
  by (cases "fault e 0")
     (auto simp: delete_task_handler_def trace_defs split: sum.splits prod.splits)

lemma answered_detaches:
  "(status (fst (post_tasks e b s)) = 201 \<longrightarrow>
      detached (snd (post_tasks e b s)) = detached s + 1) \<and>
   (status (fst (put_task e ident b s)) = 200 \<longrightarrow>
      detached (snd (put_task e ident b s)) = detached s + 1) \<and>
   (status (fst (delete_task_handler e ident s)) = 200 \<longrightarrow>
      detached (snd (delete_task_handler e ident s)) = detached s + 1)"
proof -
  have post: "status (fst (post_tasks e b s)) = 201 \<longrightarrow>
      detached (snd (post_tasks e b s)) = detached s + 1"
    by (cases "fault e 0")
       (simp_all add: post_tasks_def trace_defs split: sum.splits prod.splits)
  have put: "status (fst (put_task e ident b s)) = 200 \<longrightarrow>
      detached (snd (put_task e ident b s)) = detached s + 1"
    by (cases "fault e 0")
       (simp_all add: put_task_def trace_defs split: sum.splits prod.splits)
  have del: "status (fst (delete_task_handler e ident s)) = 200 \<longrightarrow>
      detached (snd (delete_task_handler e ident s)) = detached s + 1"
    by (cases "fault e 0")
       (simp_all add: delete_task_handler_def trace_defs split: sum.splits prod.splits)
  from post put del show ?thesis by blast
qed

lemma startup_timer:
  "intervals (startup s) = intervals s @ [30000] \<and> detached (startup s) = detached s + 1 \<and>
   store (startup s) = store s \<and> tasksTotal (startup s) = tasksTotal s \<and>
   tasksCompleted (startup s) = tasksCompleted s \<and> console (startup s) = console s \<and>
   uncaught (startup s) = uncaught s"
  by (simp add: startup_def detach_def)

lemma timer_refresh:
  "uncaught s = [] \<Longrightarrow>
   snd (step e (TimerFires 30000) (startup s)) =
   updateTaskMetrics_resumed e ((startup s)\<lparr>issued := issued (startup s) @ [CountTotal]\<rparr>)"
  by (simp add: step_def startup_timer updateTaskMetrics_split)



section \<open>A run of the service\<close>

text \<open>Creating a task on an empty table, completing it, and asking for the statistics.\<close>

lemma scenario:
  "fst (post_tasks reachable [''title'' \<mapsto> JStr ''Write spec''] (init empty_db)) =
     \<lparr>status = 201,
      payload = TaskBody \<lparr>task_id = 1, title = ''Write spec'', priority = Some ''medium'',
        completed = Some False, created_at = 100, updated_at = 100\<rparr>\<rparr> \<and>
   fst (put_task reachable ''1'' [''completed'' \<mapsto> JBool True]
          (snd (post_tasks reachable [''title'' \<mapsto> JStr ''Write spec''] (init empty_db)))) =
     \<lparr>status = 200,
      payload = TaskBody \<lparr>task_id = 1, title = ''Write spec'', priority = Some ''medium'',
        completed = Some True, created_at = 100, updated_at = 100\<rparr>\<rparr> \<and>
   fst (get_stats reachable
          (snd (put_task reachable ''1'' [''completed'' \<mapsto> JBool True]
             (snd (post_tasks reachable [''title'' \<mapsto> JStr ''Write spec''] (init empty_db)))))) =
     \<lparr>status = 200, payload = StatsBody (Some 1) (Some 1) (Some 0)\<rparr>"
  by (simp add: post_tasks_def put_task_def get_stats_def insert_task_def nextval_def
        write_spec_ok update_task_def int4_one bool_true count_total_def count_completed_def
        parseInt_show_int [of 1, simplified] js_minus_def first_row_def field_def js_or_def
        trace_defs sample_defs)

end
